theory Spec2Isabelle
  imports Main "HOL-Library.Word" "HOL-Library.AList"
begin

section \<open>Values shared by every variant of the exporter\<close>

text \<open>
  The repository holds four variants of the same program: \<^verbatim>\<open>src/main.go\<close> (a probe
  handler taking a \<^verbatim>\<open>target\<close> parameter, with package-level gauges), \<^verbatim>\<open>part_000\<close>
  (a probe handler on a fixed URL), \<^verbatim>\<open>part_001\<close> (a probe handler taking a
  \<^verbatim>\<open>target\<close>, with gauges created per request) and \<^verbatim>\<open>part_002\<close> (the poll loop).
  The types, \<^verbatim>\<open>Max\<close>, \<^verbatim>\<open>UnmarshalJSON\<close> and \<^verbatim>\<open>GetStationStatuses\<close> are the same
  text in all four.
\<close>

type_synonym int64 = "64 word"

text \<open>\<^verbatim>\<open>func Max(x, y int64) int64\<close>: the comparison is the signed one.\<close>

definition Max_int64 :: "int64 \<Rightarrow> int64 \<Rightarrow> int64" where
  "Max_int64 x y = (if sint y < sint x then x else y)"

definition minimumPollSleepSeconds :: int64 where
  "minimumPollSleepSeconds = 10"

definition namespace :: string where
  "namespace = ''gbfs''"

text \<open>\<^verbatim>\<open>func BoolToFloat64(x bool) float64\<close> (part_001). A gauge holds a float64; every
  value the program stores is the conversion of an int64 or one of 0 and 1, and the
  model records that integer (the conversion is exact up to \<open>2 ^ 53\<close>).\<close>

definition BoolToFloat64 :: "bool \<Rightarrow> int" where
  "BoolToFloat64 x = (if x then 1 else 0)"

definition float64 :: "int64 \<Rightarrow> int" where
  "float64 n = sint n"

record StationStatus =
  ID :: string
  BikesAvailable :: int64
  BikesDisabled :: int64
  DocksAvailable :: int64
  DocksDisabled :: int64
  Installed :: bool
  Renting :: bool
  Returning :: bool
  LastReported :: int64

definition zero_StationStatus :: StationStatus where
  "zero_StationStatus =
     \<lparr>ID = [], BikesAvailable = 0, BikesDisabled = 0, DocksAvailable = 0,
      DocksDisabled = 0, Installed = False, Renting = False, Returning = False,
      LastReported = 0\<rparr>"

section \<open>The JSON decoder, as the program uses it\<close>

text \<open>
  The program hands the body to \<^verbatim>\<open>encoding/json\<close>. The model starts from the document
  the library's scanner reads: a body is either rejected by the scanner (the syntax
  error's text is kept) or is one JSON value. A number literal without fraction and
  exponent is \<open>JInt\<close>; any other number literal is \<open>JFrac\<close> with its text. Object
  members are kept in order, duplicates included, with their keys unquoted.
\<close>

datatype json =
    JNull
  | JBool bool
  | JInt int
  | JFrac string
  | JStr string
  | JArr "json list"
  | JObj "(string \<times> json) list"

datatype body = Malformed string | Document json

text \<open>The two kinds of error \<^verbatim>\<open>json.Unmarshal\<close> returns here, and errors of the HTTP
  client, which carry their text.\<close>

datatype go_type =
    T_int64
  | T_string
  | T_alias
  | T_Stations
  | T_Data
  | T_StationStatusAPIResponse

datatype go_error =
    SyntaxError string
  | UnmarshalTypeError string go_type
  | TransportError string

text \<open>The text of an error. For the two struct types without a name the library prints
  the whole struct type; the text here shortens it. The library may also name the struct
  field in the text of a type error; that variant of the text is not told apart.\<close>

definition type_String :: "go_type \<Rightarrow> string" where
  "type_String t = (case t of
      T_int64 \<Rightarrow> ''int64''
    | T_string \<Rightarrow> ''string''
    | T_alias \<Rightarrow> ''struct { Installed int64; Renting int64; Returning int64; *main.Alias }''
    | T_Stations \<Rightarrow> ''[]main.StationStatus''
    | T_Data \<Rightarrow> ''struct { Stations []main.StationStatus }''
    | T_StationStatusAPIResponse \<Rightarrow> ''main.StationStatusAPIResponse'')"

definition Error :: "go_error \<Rightarrow> string" where
  "Error e = (case e of
      SyntaxError msg \<Rightarrow> msg
    | UnmarshalTypeError v t \<Rightarrow>
        ''json: cannot unmarshal '' @ v @ '' into Go value of type '' @ type_String t
    | TransportError msg \<Rightarrow> msg)"

text \<open>Panics (a nil pointer dereference) are a result of their own.\<close>

datatype 'a outcome = Panic | Return 'a

subsection \<open>Matching an object key to a struct field\<close>

text \<open>
  The decoder takes the field whose JSON name is the key, and otherwise the first field
  whose name equals the key under the library's case folding: ASCII letters match in
  either case, every other byte matches itself, and an \<open>s\<close> or \<open>k\<close> of the name also
  matches the long s (U+017F, bytes C5 BF) or the Kelvin sign (U+212A, bytes E2 84 AA).
\<close>

definition is_letter :: "char \<Rightarrow> bool" where
  "is_letter c = (let n = (of_char c :: nat) in (65 \<le> n \<and> n \<le> 90) \<or> (97 \<le> n \<and> n \<le> 122))"

definition upper :: "char \<Rightarrow> nat" where
  "upper c = (let n = (of_char c :: nat) in if 97 \<le> n \<and> n \<le> 122 then n - 32 else n)"

fun equalFold :: "string \<Rightarrow> string \<Rightarrow> bool" where
  "equalFold [] t = (t = [])"
| "equalFold (sb # s) [] = False"
| "equalFold (sb # s) (tb # t) =
     (if (of_char tb :: nat) < 128 then
        (if sb = tb then equalFold s t
         else if is_letter sb \<and> is_letter tb \<and> upper sb = upper tb then equalFold s t
         else False)
      else if sb = CHR ''s'' \<or> sb = CHR ''S'' then
        (case t of
           b2 # t' \<Rightarrow> tb = CHR 0xC5 \<and> b2 = CHR 0xBF \<and> equalFold s t'
         | [] \<Rightarrow> False)
      else if sb = CHR ''k'' \<or> sb = CHR ''K'' then
        (case t of
           b2 # b3 # t' \<Rightarrow> tb = CHR 0xE2 \<and> b2 = CHR 0x84 \<and> b3 = CHR 0xAA \<and> equalFold s t'
         | _ \<Rightarrow> False)
      else False)"

definition field_for :: "(string \<times> 'f) list \<Rightarrow> string \<Rightarrow> 'f option" where
  "field_for table key =
     (case find (\<lambda>nf. fst nf = key) table of
        Some nf \<Rightarrow> Some (snd nf)
      | None \<Rightarrow> map_option snd (find (\<lambda>nf. equalFold (fst nf) key) table))"

subsection \<open>Storing a value into an int64 or a string field\<close>

fun digits :: "nat \<Rightarrow> string" where
  "digits n = (if n < 10 then [char_of (48 + n)] else digits (n div 10) @ [char_of (48 + n mod 10)])"

definition itoa :: "int \<Rightarrow> string" where
  "itoa n = (if n < 0 then CHR ''-'' # digits (nat (- n)) else digits (nat n))"

definition in_int64 :: "int \<Rightarrow> bool" where
  "in_int64 n = (- (2 ^ 63) \<le> n \<and> n < 2 ^ 63)"

text \<open>The decoder keeps the first error it meets and goes on.\<close>

definition saveError :: "go_error option \<Rightarrow> go_error \<Rightarrow> go_error option" where
  "saveError saved e = (case saved of None \<Rightarrow> Some e | Some e0 \<Rightarrow> Some e0)"

text \<open>A JSON value stored into an int64: \<^verbatim>\<open>null\<close> changes nothing, an integer literal
  in range is stored, anything else is a type error and leaves the field as it was.\<close>

fun store_int64 :: "json \<Rightarrow> int64 \<Rightarrow> go_error option \<Rightarrow> int64 \<times> go_error option" where
  "store_int64 JNull w saved = (w, saved)"
| "store_int64 (JInt n) w saved =
     (if in_int64 n then (word_of_int n, saved)
      else (w, saveError saved (UnmarshalTypeError (''number '' @ itoa n) T_int64)))"
| "store_int64 (JFrac s) w saved = (w, saveError saved (UnmarshalTypeError (''number '' @ s) T_int64))"
| "store_int64 (JStr s) w saved = (w, saveError saved (UnmarshalTypeError ''string'' T_int64))"
| "store_int64 (JBool b) w saved = (w, saveError saved (UnmarshalTypeError ''bool'' T_int64))"
| "store_int64 (JArr xs) w saved = (w, saveError saved (UnmarshalTypeError ''array'' T_int64))"
| "store_int64 (JObj ms) w saved = (w, saveError saved (UnmarshalTypeError ''object'' T_int64))"

fun store_string :: "json \<Rightarrow> string \<Rightarrow> go_error option \<Rightarrow> string \<times> go_error option" where
  "store_string JNull w saved = (w, saved)"
| "store_string (JStr s) w saved = (s, saved)"
| "store_string (JInt n) w saved = (w, saveError saved (UnmarshalTypeError ''number'' T_string))"
| "store_string (JFrac s) w saved = (w, saveError saved (UnmarshalTypeError ''number'' T_string))"
| "store_string (JBool b) w saved = (w, saveError saved (UnmarshalTypeError ''bool'' T_string))"
| "store_string (JArr xs) w saved = (w, saveError saved (UnmarshalTypeError ''array'' T_string))"
| "store_string (JObj ms) w saved = (w, saveError saved (UnmarshalTypeError ''object'' T_string))"

subsection \<open>\<^verbatim>\<open>func (s *StationStatus) UnmarshalJSON(data []byte) error\<close>\<close>

text \<open>
  The local struct \<^verbatim>\<open>alias\<close>: three int64 fields named as the three booleans, which
  hide the booleans of the embedded \<^verbatim>\<open>*Alias\<close>, and the embedded pointer itself, which
  points at the receiver.
\<close>

record alias_struct =
  Installed_int :: int64
  Renting_int :: int64
  Returning_int :: int64
  Alias :: StationStatus

text \<open>The fields of \<^verbatim>\<open>alias\<close> the decoder sees, with their JSON names: the three
  integers, and the fields of \<^verbatim>\<open>StationStatus\<close> that they do not hide.\<close>

datatype alias_field =
    F_Installed
  | F_Renting
  | F_Returning
  | F_ID
  | F_BikesAvailable
  | F_BikesDisabled
  | F_DocksAvailable
  | F_DocksDisabled
  | F_LastReported

definition alias_fields :: "(string \<times> alias_field) list" where
  "alias_fields =
     [(''is_installed'', F_Installed), (''is_renting'', F_Renting),
      (''is_returning'', F_Returning), (''station_id'', F_ID),
      (''num_bikes_available'', F_BikesAvailable), (''num_bikes_disabled'', F_BikesDisabled),
      (''num_docks_available'', F_DocksAvailable), (''num_docks_disabled'', F_DocksDisabled),
      (''last_reported'', F_LastReported)]"

text \<open>A value stored into one field of \<^verbatim>\<open>alias\<close>.\<close>

definition alias_store ::
  "alias_field \<Rightarrow> json \<Rightarrow> alias_struct \<times> go_error option \<Rightarrow> alias_struct \<times> go_error option" where
  "alias_store f v st =
     (case st of (a, saved) \<Rightarrow>
        (case f of
           F_Installed \<Rightarrow>
             (case store_int64 v (Installed_int a) saved of (w, e) \<Rightarrow> (a\<lparr>Installed_int := w\<rparr>, e))
         | F_Renting \<Rightarrow>
             (case store_int64 v (Renting_int a) saved of (w, e) \<Rightarrow> (a\<lparr>Renting_int := w\<rparr>, e))
         | F_Returning \<Rightarrow>
             (case store_int64 v (Returning_int a) saved of (w, e) \<Rightarrow> (a\<lparr>Returning_int := w\<rparr>, e))
         | F_ID \<Rightarrow>
             (case store_string v (ID (Alias a)) saved of
                (w, e) \<Rightarrow> (a\<lparr>Alias := (Alias a)\<lparr>ID := w\<rparr>\<rparr>, e))
         | F_BikesAvailable \<Rightarrow>
             (case store_int64 v (BikesAvailable (Alias a)) saved of
                (w, e) \<Rightarrow> (a\<lparr>Alias := (Alias a)\<lparr>BikesAvailable := w\<rparr>\<rparr>, e))
         | F_BikesDisabled \<Rightarrow>
             (case store_int64 v (BikesDisabled (Alias a)) saved of
                (w, e) \<Rightarrow> (a\<lparr>Alias := (Alias a)\<lparr>BikesDisabled := w\<rparr>\<rparr>, e))
         | F_DocksAvailable \<Rightarrow>
             (case store_int64 v (DocksAvailable (Alias a)) saved of
                (w, e) \<Rightarrow> (a\<lparr>Alias := (Alias a)\<lparr>DocksAvailable := w\<rparr>\<rparr>, e))
         | F_DocksDisabled \<Rightarrow>
             (case store_int64 v (DocksDisabled (Alias a)) saved of
                (w, e) \<Rightarrow> (a\<lparr>Alias := (Alias a)\<lparr>DocksDisabled := w\<rparr>\<rparr>, e))
         | F_LastReported \<Rightarrow>
             (case store_int64 v (LastReported (Alias a)) saved of
                (w, e) \<Rightarrow> (a\<lparr>Alias := (Alias a)\<lparr>LastReported := w\<rparr>\<rparr>, e))))"

text \<open>One member of a station object, decoded into \<^verbatim>\<open>alias\<close>; a key that matches no
  field is skipped with its value.\<close>

definition alias_member ::
  "string \<times> json \<Rightarrow> alias_struct \<times> go_error option \<Rightarrow> alias_struct \<times> go_error option" where
  "alias_member m st =
     (case field_for alias_fields (fst m) of
        None \<Rightarrow> st
      | Some f \<Rightarrow> alias_store f (snd m) st)"

text \<open>
  The inner \<^verbatim>\<open>json.Unmarshal(data, &alias)\<close> gets a pointer to the pointer \<^verbatim>\<open>alias\<close>.
  For the literal \<^verbatim>\<open>null\<close> the library sets that pointer to nil and returns no error,
  and the next statement reads \<^verbatim>\<open>alias.Installed\<close>: a panic. For an object the members
  are decoded in order; a value of any other kind is a type error. With an error the
  method returns before the three booleans are assigned, the fields written through
  \<^verbatim>\<open>*Alias\<close> stay written.
\<close>

fun UnmarshalJSON :: "json \<Rightarrow> StationStatus \<Rightarrow> (StationStatus \<times> go_error option) outcome" where
  "UnmarshalJSON JNull s = Panic"
| "UnmarshalJSON (JObj ms) s =
     (case fold alias_member ms
             (\<lparr>Installed_int = 0, Renting_int = 0, Returning_int = 0, Alias = s\<rparr>, None) of
        (a, Some err) \<Rightarrow> Return (Alias a, Some err)
      | (a, None) \<Rightarrow>
          Return ((Alias a)\<lparr>Installed := Installed_int a \<noteq> 0,
                           Renting := Renting_int a \<noteq> 0,
                           Returning := Returning_int a \<noteq> 0\<rparr>, None))"
| "UnmarshalJSON (JArr xs) s = Return (s, Some (UnmarshalTypeError ''array'' T_alias))"
| "UnmarshalJSON (JStr v) s = Return (s, Some (UnmarshalTypeError ''string'' T_alias))"
| "UnmarshalJSON (JInt n) s = Return (s, Some (UnmarshalTypeError ''number'' T_alias))"
| "UnmarshalJSON (JFrac v) s = Return (s, Some (UnmarshalTypeError ''number'' T_alias))"
| "UnmarshalJSON (JBool b) s = Return (s, Some (UnmarshalTypeError ''bool'' T_alias))"

subsection \<open>The slice of stations\<close>

text \<open>
  A slice is its \<^verbatim>\<open>len\<close> elements and, behind them, the rest of its backing array up to
  \<^verbatim>\<open>cap\<close>. The decoder reuses both when the same slice is decoded into twice (a
  repeated \<^verbatim>\<open>stations\<close> or \<^verbatim>\<open>data\<close> key).
\<close>

record slice =
  elems :: "StationStatus list"
  spare :: "StationStatus list"

definition nil_slice :: slice where
  "nil_slice = \<lparr>elems = [], spare = []\<rparr>"

definition cap :: "slice \<Rightarrow> nat" where
  "cap v = length (elems v) + length (spare v)"

definition SetLen :: "nat \<Rightarrow> slice \<Rightarrow> slice" where
  "SetLen n v = \<lparr>elems = take n (elems v @ spare v), spare = drop n (elems v @ spare v)\<rparr>"

text \<open>Growing: a new zeroed backing array of one and a half times the capacity, at
  least 4, into which the \<^verbatim>\<open>len\<close> elements are copied.\<close>

definition grow :: "slice \<Rightarrow> slice" where
  "grow v =
     (let newcap0 = cap v + cap v div 2;
          newcap = (if newcap0 < 4 then 4 else newcap0)
      in \<lparr>elems = elems v, spare = replicate (newcap - length (elems v)) zero_StationStatus\<rparr>)"

text \<open>A decoding step panics, or stops with the error a custom unmarshaler returned
  (what was written so far stays), or goes on.\<close>

datatype 'a decoded = Panicked | Failed go_error 'a | Decoded 'a

text \<open>The slice made ready for element \<open>i\<close>: grown when \<open>i\<close> is at the capacity,
  and its length raised to \<open>i + 1\<close> when \<open>i\<close> is at the length.\<close>

definition slot :: "nat \<Rightarrow> slice \<Rightarrow> slice" where
  "slot i v =
     (let v1 = (if cap v \<le> i then grow v else v)
      in if length (elems v1) \<le> i then SetLen (i + 1) v1 else v1)"

text \<open>
  The array loop of the decoder on a slice: element \<open>i\<close> of the JSON array is decoded
  into element \<open>i\<close> of the slice, which is the element already there when there is one;
  every element goes through \<^verbatim>\<open>UnmarshalJSON\<close>, whatever its JSON kind. At the end the
  slice is cut to the number of elements read, and an empty array gives a new empty
  slice.
\<close>

fun array_elems :: "json list \<Rightarrow> nat \<Rightarrow> slice \<Rightarrow> slice decoded" where
  "array_elems [] i v =
     Decoded (let v1 = (if i < length (elems v) then SetLen i v else v)
              in if i = 0 then \<lparr>elems = [], spare = []\<rparr> else v1)"
| "array_elems (x # xs) i v =
     (let v2 = slot i v
      in if i < length (elems v2) then
           (case UnmarshalJSON x (elems v2 ! i) of
              Panic \<Rightarrow> Panicked
            | Return (s, Some err) \<Rightarrow> Failed err (v2\<lparr>elems := (elems v2)[i := s]\<rparr>)
            | Return (s, None) \<Rightarrow> array_elems xs (i + 1) (v2\<lparr>elems := (elems v2)[i := s]\<rparr>))
         else array_elems xs (i + 1) v2)"

text \<open>The members of an object, in order, until one panics or fails.\<close>

fun members :: "('m \<Rightarrow> 'a \<Rightarrow> 'a decoded) \<Rightarrow> 'm list \<Rightarrow> 'a \<Rightarrow> 'a decoded" where
  "members f [] st = Decoded st"
| "members f (m # ms) st =
     (case f m st of
        Panicked \<Rightarrow> Panicked
      | Failed err st' \<Rightarrow> Failed err st'
      | Decoded st' \<Rightarrow> members f ms st')"

subsection \<open>\<^verbatim>\<open>StationStatusAPIResponse\<close>\<close>

record StationStatusAPIResponse =
  Data_Stations :: slice
  LastUpdated :: int64
  TTL :: int64

definition zero_StationStatusAPIResponse :: StationStatusAPIResponse where
  "zero_StationStatusAPIResponse = \<lparr>Data_Stations = nil_slice, LastUpdated = 0, TTL = 0\<rparr>"

text \<open>One member of the \<^verbatim>\<open>data\<close> object.\<close>

datatype data_field = F_Stations

definition data_fields :: "(string \<times> data_field) list" where
  "data_fields = [(''stations'', F_Stations)]"

definition data_member ::
  "string \<times> json \<Rightarrow> slice \<times> go_error option \<Rightarrow> (slice \<times> go_error option) decoded" where
  "data_member m st =
     (case m of (key, v) \<Rightarrow> case st of (sl, saved) \<Rightarrow>
        (case field_for data_fields key of
           None \<Rightarrow> Decoded (sl, saved)
         | Some F_Stations \<Rightarrow>
             (case v of
                JNull \<Rightarrow> Decoded (nil_slice, saved)
              | JArr xs \<Rightarrow>
                  (case array_elems xs 0 sl of
                     Panicked \<Rightarrow> Panicked
                   | Failed err sl' \<Rightarrow> Failed err (sl', saved)
                   | Decoded sl' \<Rightarrow> Decoded (sl', saved))
              | JObj ms \<Rightarrow> Decoded (sl, saveError saved (UnmarshalTypeError ''object'' T_Stations))
              | JStr s \<Rightarrow> Decoded (sl, saveError saved (UnmarshalTypeError ''string'' T_Stations))
              | JInt n \<Rightarrow> Decoded (sl, saveError saved (UnmarshalTypeError ''number'' T_Stations))
              | JFrac s \<Rightarrow> Decoded (sl, saveError saved (UnmarshalTypeError ''number'' T_Stations))
              | JBool b \<Rightarrow> Decoded (sl, saveError saved (UnmarshalTypeError ''bool'' T_Stations)))))"

text \<open>One member of the top-level object. The fields are \<^verbatim>\<open>Data\<close> and the two of the
  embedded \<^verbatim>\<open>GBFSAPIResponse\<close>.\<close>

datatype top_field = F_Data | F_LastUpdated | F_TTL

definition top_fields :: "(string \<times> top_field) list" where
  "top_fields = [(''data'', F_Data), (''last_updated'', F_LastUpdated), (''ttl'', F_TTL)]"

definition top_member ::
  "string \<times> json \<Rightarrow> StationStatusAPIResponse \<times> go_error option
     \<Rightarrow> (StationStatusAPIResponse \<times> go_error option) decoded" where
  "top_member m st =
     (case m of (key, v) \<Rightarrow> case st of (resp, saved) \<Rightarrow>
        (case field_for top_fields key of
           None \<Rightarrow> Decoded (resp, saved)
         | Some F_Data \<Rightarrow>
             (case v of
                JNull \<Rightarrow> Decoded (resp, saved)
              | JObj ms \<Rightarrow>
                  (case members data_member ms (Data_Stations resp, saved) of
                     Panicked \<Rightarrow> Panicked
                   | Failed err (sl, sv) \<Rightarrow> Failed err (resp\<lparr>Data_Stations := sl\<rparr>, sv)
                   | Decoded (sl, sv) \<Rightarrow> Decoded (resp\<lparr>Data_Stations := sl\<rparr>, sv))
              | JArr xs \<Rightarrow> Decoded (resp, saveError saved (UnmarshalTypeError ''array'' T_Data))
              | JStr s \<Rightarrow> Decoded (resp, saveError saved (UnmarshalTypeError ''string'' T_Data))
              | JInt n \<Rightarrow> Decoded (resp, saveError saved (UnmarshalTypeError ''number'' T_Data))
              | JFrac s \<Rightarrow> Decoded (resp, saveError saved (UnmarshalTypeError ''number'' T_Data))
              | JBool b \<Rightarrow> Decoded (resp, saveError saved (UnmarshalTypeError ''bool'' T_Data)))
         | Some F_LastUpdated \<Rightarrow>
             (case store_int64 v (LastUpdated resp) saved of
                (w, e) \<Rightarrow> Decoded (resp\<lparr>LastUpdated := w\<rparr>, e))
         | Some F_TTL \<Rightarrow>
             (case store_int64 v (TTL resp) saved of
                (w, e) \<Rightarrow> Decoded (resp\<lparr>TTL := w\<rparr>, e))))"

subsection \<open>\<^verbatim>\<open>func GetStationStatuses(body []byte) (*StationStatusAPIResponse, error)\<close>\<close>

text \<open>
  \<^verbatim>\<open>resp := new(StationStatusAPIResponse); err := json.Unmarshal(body, &resp)\<close>. The
  result is the pointer (\<open>None\<close> is nil) and the error (\<open>None\<close> is nil). The library
  checks the syntax of the whole body before it writes anything. It gets the address of
  the pointer \<^verbatim>\<open>resp\<close>, so for the literal \<^verbatim>\<open>null\<close> it sets \<^verbatim>\<open>resp\<close> itself to nil.
  An error returned by \<^verbatim>\<open>UnmarshalJSON\<close> ends the decoding and is the error returned;
  otherwise the first saved type error is.
\<close>

fun GetStationStatuses :: "body \<Rightarrow> (StationStatusAPIResponse option \<times> go_error option) outcome" where
  "GetStationStatuses (Malformed msg) =
     Return (Some zero_StationStatusAPIResponse, Some (SyntaxError msg))"
| "GetStationStatuses (Document JNull) = Return (None, None)"
| "GetStationStatuses (Document (JObj ms)) =
     (case members top_member ms (zero_StationStatusAPIResponse, None) of
        Panicked \<Rightarrow> Panic
      | Failed err (resp, saved) \<Rightarrow> Return (Some resp, Some err)
      | Decoded (resp, saved) \<Rightarrow> Return (Some resp, saved))"
| "GetStationStatuses (Document (JArr xs)) =
     Return (Some zero_StationStatusAPIResponse,
             Some (UnmarshalTypeError ''array'' T_StationStatusAPIResponse))"
| "GetStationStatuses (Document (JStr s)) =
     Return (Some zero_StationStatusAPIResponse,
             Some (UnmarshalTypeError ''string'' T_StationStatusAPIResponse))"
| "GetStationStatuses (Document (JInt n)) =
     Return (Some zero_StationStatusAPIResponse,
             Some (UnmarshalTypeError ''number'' T_StationStatusAPIResponse))"
| "GetStationStatuses (Document (JFrac s)) =
     Return (Some zero_StationStatusAPIResponse,
             Some (UnmarshalTypeError ''number'' T_StationStatusAPIResponse))"
| "GetStationStatuses (Document (JBool b)) =
     Return (Some zero_StationStatusAPIResponse,
             Some (UnmarshalTypeError ''bool'' T_StationStatusAPIResponse))"

section \<open>Gauges, the HTTP client and the HTTP reply\<close>

text \<open>
  A \<^verbatim>\<open>GaugeVec\<close> with the one label \<^verbatim>\<open>station_id\<close>: one child per label value, kept
  for as long as the vector lives. \<^verbatim>\<open>With(Labels{"station_id": id}).Set(v)\<close> creates the
  child or overwrites its value.
\<close>

type_synonym GaugeVec = "(string \<times> int) list"

definition With_Set :: "string \<Rightarrow> int \<Rightarrow> GaugeVec \<Rightarrow> GaugeVec" where
  "With_Set station_id v vec = AList.update station_id v vec"

definition BuildFQName :: "string \<Rightarrow> string \<Rightarrow> string" where
  "BuildFQName ns name = ns @ ''_'' @ name"

text \<open>What a registry exposes: a sample is the metric's name, the value of the
  \<^verbatim>\<open>station_id\<close> label and the gauge's value. The text format and the order in which
  the library writes the samples are not modelled.\<close>

type_synonym sample = "string \<times> string \<times> int"

definition Gather :: "(string \<times> GaugeVec) list \<Rightarrow> sample list" where
  "Gather registry =
     concat (map (\<lambda>(name, vec). map (\<lambda>(station_id, v). (name, station_id, v)) vec) registry)"

text \<open>\<^verbatim>\<open>http.Error(w, msg, code)\<close> writes the message and a newline.\<close>

datatype response = Status nat string | Metrics "sample list"

definition http_Error :: "string \<Rightarrow> nat \<Rightarrow> response" where
  "http_Error msg code = Status code (msg @ [CHR 0x0A])"

text \<open>A handler replies, or panics (the server drops the request), or ends the process
  with \<^verbatim>\<open>log.Fatalln\<close>.\<close>

datatype reply = Crashed | Exited go_error | Replied response

text \<open>The query of the request; \<^verbatim>\<open>Values.Get\<close> gives the first value of the key, and
  the empty string when there is none.\<close>

type_synonym Values = "string \<rightharpoonup> string list"

definition Values_Get :: "Values \<Rightarrow> string \<Rightarrow> string" where
  "Values_Get params key =
     (case params key of None \<Rightarrow> [] | Some [] \<Rightarrow> [] | Some (v # vs) \<Rightarrow> v)"

text \<open>What \<^verbatim>\<open>http.Get\<close> followed by \<^verbatim>\<open>ioutil.ReadAll\<close> gives for a URL: the request
  fails, or reading the body fails, or the body is there. The status code of the
  response is not looked at.\<close>

datatype fetch = GetFailed go_error | ReadFailed go_error | Body body

section \<open>\<^verbatim>\<open>src/main.go\<close>: probe handler with the package-level gauges\<close>

record package_vars =
  bikesAvailable :: GaugeVec
  bikesDisabled :: GaugeVec
  docksAvailable :: GaugeVec

definition initial_vars :: package_vars where
  "initial_vars = \<lparr>bikesAvailable = [], bikesDisabled = [], docksAvailable = []\<rparr>"

text \<open>The body of the loop over \<^verbatim>\<open>stationStatusResp.Data.Stations\<close>.\<close>

definition observe :: "StationStatus \<Rightarrow> package_vars \<Rightarrow> package_vars" where
  "observe status g =
     g\<lparr>bikesAvailable := With_Set (ID status) (float64 (BikesAvailable status)) (bikesAvailable g),
       bikesDisabled := With_Set (ID status) (float64 (BikesDisabled status)) (bikesDisabled g),
       docksAvailable := With_Set (ID status) (float64 (DocksAvailable status)) (docksAvailable g)\<rparr>"

text \<open>The registry made for the request holds the three package-level vectors;
  \<^verbatim>\<open>MustRegister\<close> is taken to succeed.\<close>

definition registry :: "package_vars \<Rightarrow> (string \<times> GaugeVec) list" where
  "registry g =
     [(BuildFQName namespace ''bikes_available'', bikesAvailable g),
      (BuildFQName namespace ''bikes_disabled'', bikesDisabled g),
      (BuildFQName namespace ''docks_available'', docksAvailable g)]"

record handled =
  reply :: reply
  fetched :: "string list"
  vars :: package_vars

definition probeGBFS :: "(string \<Rightarrow> fetch) \<Rightarrow> Values \<Rightarrow> package_vars \<Rightarrow> handled" where
  "probeGBFS Get params g =
     (let target = Values_Get params ''target'' in
      if target = [] then
        \<lparr>reply = Replied (http_Error ''Target parameter missing'' 400), fetched = [], vars = g\<rparr>
      else
        (case Get target of
           GetFailed err \<Rightarrow>
             \<lparr>reply = Replied (http_Error (''HTTP error: '' @ Error err) 400),
              fetched = [target], vars = g\<rparr>
         | ReadFailed err \<Rightarrow>
             \<lparr>reply = Replied (http_Error
                 (''Failed to read HTTP body of target '' @ [CHR 0x27] @ target @ [CHR 0x27]
                    @ '': '' @ Error err) 500),
              fetched = [target], vars = g\<rparr>
         | Body body \<Rightarrow>
             (case GetStationStatuses body of
                Panic \<Rightarrow> \<lparr>reply = Crashed, fetched = [target], vars = g\<rparr>
              | Return (resp, Some err) \<Rightarrow>
                  \<lparr>reply = Replied (http_Error
                      (''Could not unmarshal target JSON, target '' @ [CHR 0x27] @ target
                         @ [CHR 0x27] @ '' does not have the expected schema: '' @ Error err) 400),
                   fetched = [target], vars = g\<rparr>
              | Return (None, None) \<Rightarrow> \<lparr>reply = Crashed, fetched = [target], vars = g\<rparr>
              | Return (Some resp, None) \<Rightarrow>
                  (let g' = fold observe (elems (Data_Stations resp)) g
                   in \<lparr>reply = Replied (Metrics (Gather (registry g'))),
                       fetched = [target], vars = g'\<rparr>))))"

section \<open>\<^verbatim>\<open>part_001\<close>: probe handler with gauges made for the request\<close>

record probe_gauges =
  bikesAvailableGauge :: GaugeVec
  bikesDisabledGauge :: GaugeVec
  docksAvailableGauge :: GaugeVec
  docksDisabledGauge :: GaugeVec
  installedGauge :: GaugeVec
  rentingGauge :: GaugeVec
  lastReportedGauge :: GaugeVec

definition new_gauges :: probe_gauges where
  "new_gauges =
     \<lparr>bikesAvailableGauge = [], bikesDisabledGauge = [], docksAvailableGauge = [],
      docksDisabledGauge = [], installedGauge = [], rentingGauge = [],
      lastReportedGauge = []\<rparr>"

definition observe_part_001 :: "StationStatus \<Rightarrow> probe_gauges \<Rightarrow> probe_gauges" where
  "observe_part_001 status g =
     g\<lparr>bikesAvailableGauge :=
         With_Set (ID status) (float64 (BikesAvailable status)) (bikesAvailableGauge g),
       bikesDisabledGauge :=
         With_Set (ID status) (float64 (BikesDisabled status)) (bikesDisabledGauge g),
       docksAvailableGauge :=
         With_Set (ID status) (float64 (DocksAvailable status)) (docksAvailableGauge g),
       docksDisabledGauge :=
         With_Set (ID status) (float64 (DocksDisabled status)) (docksDisabledGauge g),
       installedGauge := With_Set (ID status) (BoolToFloat64 (Installed status)) (installedGauge g),
       rentingGauge := With_Set (ID status) (BoolToFloat64 (Renting status)) (rentingGauge g),
       lastReportedGauge :=
         With_Set (ID status) (float64 (LastReported status)) (lastReportedGauge g)\<rparr>"

definition registry_part_001 :: "probe_gauges \<Rightarrow> (string \<times> GaugeVec) list" where
  "registry_part_001 g =
     [(BuildFQName namespace ''bikes_available'', bikesAvailableGauge g),
      (BuildFQName namespace ''bikes_disabled'', bikesDisabledGauge g),
      (BuildFQName namespace ''docks_available'', docksAvailableGauge g),
      (BuildFQName namespace ''docks_disabled'', docksDisabledGauge g),
      (BuildFQName namespace ''installed'', installedGauge g),
      (BuildFQName namespace ''renting'', rentingGauge g),
      (BuildFQName namespace ''last_reported_timestamp_seconds'', lastReportedGauge g)]"

text \<open>The \<^verbatim>\<open>Help\<close> of each gauge, as \<^verbatim>\<open>GaugeOpts\<close> gives it: the text the exposition
  writes for the metric.\<close>

definition Help_part_001 :: "(string \<times> string) list" where
  "Help_part_001 =
     [(BuildFQName namespace ''bikes_available'', ''The number of bikes available for rental''),
      (BuildFQName namespace ''bikes_disabled'', ''The number of disabled bikes''),
      (BuildFQName namespace ''docks_available'', ''The number of docks accepting bike returns''),
      (BuildFQName namespace ''docks_disabled'',
         ''The number of empty but disabled dock points''),
      (BuildFQName namespace ''installed'',
         ''Indicates if the station is currently renting bikes, ''
           @ ''regardless of if any bikes are available''),
      (BuildFQName namespace ''renting'',
         ''Indicates if the station is currently accepting bike returns, ''
           @ ''regardless of if any docks are available''),
      (BuildFQName namespace ''last_reported_timestamp_seconds'',
         ''Last time this station reported its status to the feed, in unixtime'')]"

definition probeGBFS_part_001 :: "(string \<Rightarrow> fetch) \<Rightarrow> Values \<Rightarrow> reply \<times> string list" where
  "probeGBFS_part_001 Get params =
     (let target = Values_Get params ''target'' in
      if target = [] then (Replied (http_Error ''Target parameter missing'' 400), [])
      else
        (case Get target of
           GetFailed err \<Rightarrow> (Replied (http_Error (''HTTP error: '' @ Error err) 400), [target])
         | ReadFailed err \<Rightarrow>
             (Replied (http_Error
                (''Failed to read HTTP body of target '' @ [CHR 0x27] @ target @ [CHR 0x27]
                   @ '': '' @ Error err) 500), [target])
         | Body body \<Rightarrow>
             (case GetStationStatuses body of
                Panic \<Rightarrow> (Crashed, [target])
              | Return (resp, Some err) \<Rightarrow>
                  (Replied (http_Error
                     (''Could not unmarshal target JSON, target '' @ [CHR 0x27] @ target
                        @ [CHR 0x27] @ '' does not have the expected schema: '' @ Error err) 400),
                   [target])
              | Return (None, None) \<Rightarrow> (Crashed, [target])
              | Return (Some resp, None) \<Rightarrow>
                  (Replied (Metrics (Gather (registry_part_001
                      (fold observe_part_001 (elems (Data_Stations resp)) new_gauges)))),
                   [target]))))"

section \<open>\<^verbatim>\<open>part_000\<close>: probe handler on the fixed URL\<close>

definition feed_url :: string where
  "feed_url = ''https://tor.publicbikesystem.net/ube/gbfs/v1/en/station_status''"

text \<open>The error of \<^verbatim>\<open>GetStationStatuses\<close> is assigned to \<^verbatim>\<open>_\<close>; the pointer is
  dereferenced whatever the error was.\<close>

definition probeGBFS_part_000 :: "(string \<Rightarrow> fetch) \<Rightarrow> package_vars \<Rightarrow> handled" where
  "probeGBFS_part_000 Get g =
     (case Get feed_url of
        GetFailed err \<Rightarrow> \<lparr>reply = Exited err, fetched = [feed_url], vars = g\<rparr>
      | ReadFailed err \<Rightarrow> \<lparr>reply = Exited err, fetched = [feed_url], vars = g\<rparr>
      | Body body \<Rightarrow>
          (case GetStationStatuses body of
             Panic \<Rightarrow> \<lparr>reply = Crashed, fetched = [feed_url], vars = g\<rparr>
           | Return (None, err) \<Rightarrow> \<lparr>reply = Crashed, fetched = [feed_url], vars = g\<rparr>
           | Return (Some resp, err) \<Rightarrow>
               (let g' = fold observe (elems (Data_Stations resp)) g
                in \<lparr>reply = Replied (Metrics (Gather (registry g'))),
                    fetched = [feed_url], vars = g'\<rparr>)))"

section \<open>\<^verbatim>\<open>part_002\<close>: the poll loop\<close>

text \<open>\<^verbatim>\<open>sleepLenSeconds := Max(minimumPollSleepSeconds, stationStatusResp.TTL+1)\<close>, in
  int64 arithmetic.\<close>

definition sleepLenSeconds :: "StationStatusAPIResponse \<Rightarrow> int64" where
  "sleepLenSeconds resp = Max_int64 minimumPollSleepSeconds (TTL resp + 1)"

text \<open>\<^verbatim>\<open>time.Duration(sleepLenSeconds) * time.Second\<close>: int64 nanoseconds.\<close>

definition Duration_of_seconds :: "int64 \<Rightarrow> int64" where
  "Duration_of_seconds n = n * 1000000000"

text \<open>One turn of the loop: it ends the process, or panics, or sleeps with the gauges
  updated.\<close>

datatype turn = Fatal go_error | Panics | Sleeps int64 package_vars

definition grabThoseMetrics_turn :: "fetch \<Rightarrow> package_vars \<Rightarrow> turn" where
  "grabThoseMetrics_turn answer g =
     (case answer of
        GetFailed err \<Rightarrow> Fatal err
      | ReadFailed err \<Rightarrow> Fatal err
      | Body body \<Rightarrow>
          (case GetStationStatuses body of
             Panic \<Rightarrow> Panics
           | Return (None, err) \<Rightarrow> Panics
           | Return (Some resp, err) \<Rightarrow>
               Sleeps (Duration_of_seconds (sleepLenSeconds resp))
                      (fold observe (elems (Data_Stations resp)) g)))"

text \<open>
  The loop has no exit of its own. It is run here against the answers the feed gives to
  the successive requests; when they are used up the loop is still running.
\<close>

datatype ending = Process_exit go_error | Process_panic | Still_running

record run =
  ending :: ending
  sleeps :: "int64 list"
  vars_at_end :: package_vars

fun grabThoseMetrics :: "fetch list \<Rightarrow> package_vars \<Rightarrow> run" where
  "grabThoseMetrics [] g = \<lparr>ending = Still_running, sleeps = [], vars_at_end = g\<rparr>"
| "grabThoseMetrics (answer # answers) g =
     (case grabThoseMetrics_turn answer g of
        Fatal err \<Rightarrow> \<lparr>ending = Process_exit err, sleeps = [], vars_at_end = g\<rparr>
      | Panics \<Rightarrow> \<lparr>ending = Process_panic, sleeps = [], vars_at_end = g\<rparr>
      | Sleeps d g' \<Rightarrow>
          (let r = grabThoseMetrics answers g' in r\<lparr>sleeps := d # sleeps r\<rparr>))"

section \<open>Notions used to state the properties\<close>

text \<open>
  The values a station object gives for a field: those of the members whose key the
  decoder matches to the field, in order. The integer the wire gives for the field is
  the last integer literal among them, and 0 when there is none.
\<close>

definition wire_values :: "alias_field \<Rightarrow> (string \<times> json) list \<Rightarrow> json list" where
  "wire_values f ms = map snd (filter (\<lambda>m. field_for alias_fields (fst m) = Some f) ms)"

definition last_int :: "json \<Rightarrow> int \<Rightarrow> int" where
  "last_int v n = (case v of JInt k \<Rightarrow> k | _ \<Rightarrow> n)"

definition wire_int :: "alias_field \<Rightarrow> (string \<times> json) list \<Rightarrow> int" where
  "wire_int f ms = fold last_int (wire_values f ms) 0"

text \<open>What storing a value into an int64 leaves there when it is no error, and the
  values for which it is no error.\<close>

definition stored :: "json \<Rightarrow> int64 \<Rightarrow> int64" where
  "stored v w = (case v of JInt n \<Rightarrow> word_of_int n | _ \<Rightarrow> w)"

definition storable :: "json \<Rightarrow> bool" where
  "storable v = (case v of JNull \<Rightarrow> True | JInt n \<Rightarrow> in_int64 n | _ \<Rightarrow> False)"

text \<open>
  The two optional fields. A payload without one of them is the payload with the
  members removed that the decoder would store into it, in every entry of every
  \<^verbatim>\<open>stations\<close> array it decodes; a payload lacks the field when no entry has such a
  member. \<open>zeroed\<close> sets the field to 0, in a station, in every element of a slice and
  of its backing array, and in a response.
\<close>

datatype optional_field = Num_bikes_disabled | Num_docks_disabled

definition field_of :: "optional_field \<Rightarrow> alias_field" where
  "field_of opt = (case opt of Num_bikes_disabled \<Rightarrow> F_BikesDisabled | Num_docks_disabled \<Rightarrow> F_DocksDisabled)"

definition decoded_field :: "optional_field \<Rightarrow> StationStatus \<Rightarrow> int64" where
  "decoded_field opt s = (case opt of Num_bikes_disabled \<Rightarrow> BikesDisabled s | Num_docks_disabled \<Rightarrow> DocksDisabled s)"

definition zeroed :: "optional_field \<Rightarrow> StationStatus \<Rightarrow> StationStatus" where
  "zeroed opt s = (case opt of Num_bikes_disabled \<Rightarrow> s\<lparr>BikesDisabled := 0\<rparr> | Num_docks_disabled \<Rightarrow> s\<lparr>DocksDisabled := 0\<rparr>)"

definition zeroed_slice :: "optional_field \<Rightarrow> slice \<Rightarrow> slice" where
  "zeroed_slice opt v = \<lparr>elems = map (zeroed opt) (elems v), spare = map (zeroed opt) (spare v)\<rparr>"

definition zeroed_response :: "optional_field \<Rightarrow> StationStatusAPIResponse \<Rightarrow> StationStatusAPIResponse" where
  "zeroed_response opt resp = resp\<lparr>Data_Stations := zeroed_slice opt (Data_Stations resp)\<rparr>"

definition gives :: "optional_field \<Rightarrow> string \<times> json \<Rightarrow> bool" where
  "gives opt m = (field_for alias_fields (fst m) = Some (field_of opt))"

definition station_without :: "optional_field \<Rightarrow> json \<Rightarrow> json" where
  "station_without opt x = (case x of JObj ms \<Rightarrow> JObj (filter (\<lambda>m. \<not> gives opt m) ms) | _ \<Rightarrow> x)"

definition stations_without :: "optional_field \<Rightarrow> json \<Rightarrow> json" where
  "stations_without opt v = (case v of JArr xs \<Rightarrow> JArr (map (station_without opt) xs) | _ \<Rightarrow> v)"

definition data_member_without :: "optional_field \<Rightarrow> string \<times> json \<Rightarrow> string \<times> json" where
  "data_member_without opt m =
     (if field_for data_fields (fst m) = Some F_Stations then (fst m, stations_without opt (snd m)) else m)"

definition data_without :: "optional_field \<Rightarrow> json \<Rightarrow> json" where
  "data_without opt v = (case v of JObj ms \<Rightarrow> JObj (map (data_member_without opt) ms) | _ \<Rightarrow> v)"

definition top_member_without :: "optional_field \<Rightarrow> string \<times> json \<Rightarrow> string \<times> json" where
  "top_member_without opt m =
     (if field_for top_fields (fst m) = Some F_Data then (fst m, data_without opt (snd m)) else m)"

definition payload_without :: "optional_field \<Rightarrow> json \<Rightarrow> json" where
  "payload_without opt j = (case j of JObj ms \<Rightarrow> JObj (map (top_member_without opt) ms) | _ \<Rightarrow> j)"

definition station_lacks :: "optional_field \<Rightarrow> json \<Rightarrow> bool" where
  "station_lacks opt x = (case x of JObj ms \<Rightarrow> list_all (\<lambda>m. \<not> gives opt m) ms | _ \<Rightarrow> True)"

definition stations_lack :: "optional_field \<Rightarrow> json \<Rightarrow> bool" where
  "stations_lack opt v = (case v of JArr xs \<Rightarrow> list_all (station_lacks opt) xs | _ \<Rightarrow> True)"

definition data_lacks :: "optional_field \<Rightarrow> json \<Rightarrow> bool" where
  "data_lacks opt v =
     (case v of
        JObj ms \<Rightarrow> list_all (\<lambda>m. if field_for data_fields (fst m) = Some F_Stations
                                 then stations_lack opt (snd m) else True) ms
      | _ \<Rightarrow> True)"

definition payload_lacks :: "optional_field \<Rightarrow> json \<Rightarrow> bool" where
  "payload_lacks opt j =
     (case j of
        JObj ms \<Rightarrow> list_all (\<lambda>m. if field_for top_fields (fst m) = Some F_Data
                                 then data_lacks opt (snd m) else True) ms
      | _ \<Rightarrow> True)"

text \<open>The same on the struct \<^verbatim>\<open>alias\<close>, whose embedded pointer is the station.\<close>

definition za :: "optional_field \<Rightarrow> alias_struct \<Rightarrow> alias_struct" where
  "za opt a = a\<lparr>Alias := zeroed opt (Alias a)\<rparr>"

text \<open>The station identifiers that occur in a list of samples.\<close>

definition station_ids :: "sample list \<Rightarrow> string set" where
  "station_ids samples = (\<lambda>smp. fst (snd smp)) ` set samples"

text \<open>
  The entries of the \<^verbatim>\<open>stations\<close> arrays of a payload, in the order the decoder meets
  them, and the payloads in which the keys \<^verbatim>\<open>data\<close> and \<^verbatim>\<open>stations\<close> are matched by at
  most one member each, so that the one array is decoded into a new slice. An entry
  decodes to a station when \<^verbatim>\<open>UnmarshalJSON\<close> gives it, without error, from the zero
  value; an entry that lacks an optional field defaults when the station has 0 there.
  A slice is fresh from index \<open>i\<close> when its backing array holds zero values from there
  on.
\<close>

definition is_data :: "string \<times> json \<Rightarrow> bool" where
  "is_data m = (field_for top_fields (fst m) = Some F_Data)"

definition is_stations :: "string \<times> json \<Rightarrow> bool" where
  "is_stations m = (field_for data_fields (fst m) = Some F_Stations)"

definition array_entries :: "json \<Rightarrow> json list" where
  "array_entries v = (case v of JArr xs \<Rightarrow> xs | _ \<Rightarrow> [])"

definition data_entries :: "json \<Rightarrow> json list" where
  "data_entries v =
     (case v of
        JObj dms \<Rightarrow> concat (map (\<lambda>m. array_entries (snd m)) (filter is_stations dms))
      | _ \<Rightarrow> [])"

definition entries :: "json \<Rightarrow> json list" where
  "entries j =
     (case j of
        JObj ms \<Rightarrow> concat (map (\<lambda>m. data_entries (snd m)) (filter is_data ms))
      | _ \<Rightarrow> [])"

definition data_keys_once :: "json \<Rightarrow> bool" where
  "data_keys_once v = (case v of JObj dms \<Rightarrow> length (filter is_stations dms) \<le> 1 | _ \<Rightarrow> True)"

definition keys_once :: "json \<Rightarrow> bool" where
  "keys_once j =
     (case j of
        JObj ms \<Rightarrow> length (filter is_data ms) \<le> 1 \<and>
                   list_all (\<lambda>m. data_keys_once (snd m)) (filter is_data ms)
      | _ \<Rightarrow> True)"

definition decodes_to :: "json \<Rightarrow> StationStatus \<Rightarrow> bool" where
  "decodes_to x s = (UnmarshalJSON x zero_StationStatus = Return (s, None))"

definition defaults :: "optional_field \<Rightarrow> json \<Rightarrow> StationStatus \<Rightarrow> bool" where
  "defaults opt x s = (if station_lacks opt x then decoded_field opt s = 0 else True)"

definition fresh_from :: "nat \<Rightarrow> slice \<Rightarrow> bool" where
  "fresh_from i v = list_all (\<lambda>s. s = zero_StationStatus) (drop i (elems v @ spare v))"

text \<open>Inputs at which the properties are evaluated.\<close>

definition members_s1 :: "(string \<times> json) list" where
  "members_s1 =
     [(''station_id'', JStr ''s1''), (''is_installed'', JInt 2),
      (''is_renting'', JInt (- 1)), (''is_returning'', JInt 0)]"

definition status_s1 :: StationStatus where
  "status_s1 =
     \<lparr>ID = ''s1'', BikesAvailable = 0, BikesDisabled = 0, DocksAvailable = 0,
      DocksDisabled = 0, Installed = True, Renting = True, Returning = False,
      LastReported = 0\<rparr>"

definition station_7001 :: json where
  "station_7001 =
     JObj [(''station_id'', JStr ''7001''), (''num_bikes_available'', JInt 4),
           (''num_docks_available'', JInt 11), (''is_installed'', JInt 1),
           (''is_renting'', JInt 1), (''is_returning'', JInt 0),
           (''last_reported'', JInt 1600000000)]"

definition feed_7001 :: json where
  "feed_7001 =
     JObj [(''data'', JObj [(''stations'', JArr [station_7001])]),
           (''last_updated'', JInt 1600000005), (''ttl'', JInt 30)]"

definition status_7001 :: StationStatus where
  "status_7001 =
     \<lparr>ID = ''7001'', BikesAvailable = 4, BikesDisabled = 0, DocksAvailable = 11,
      DocksDisabled = 0, Installed = True, Renting = True, Returning = False,
      LastReported = 1600000000\<rparr>"

definition response_7001 :: StationStatusAPIResponse where
  "response_7001 =
     \<lparr>Data_Stations = \<lparr>elems = [status_7001], spare = replicate 3 zero_StationStatus\<rparr>,
      LastUpdated = 1600000005, TTL = 30\<rparr>"

definition feed_A1 :: json where
  "feed_A1 =
     JObj [(''data'', JObj [(''stations'',
       JArr [JObj [(''station_id'', JStr ''A1''), (''num_bikes_available'', JInt 3)]])])]"

definition feed_B1 :: json where
  "feed_B1 =
     JObj [(''data'', JObj [(''stations'',
       JArr [JObj [(''station_id'', JStr ''B1''), (''num_bikes_available'', JInt 5)]])])]"

definition two_feeds :: "string \<Rightarrow> fetch" where
  "two_feeds url =
     (if url = ''http://a'' then Body (Document feed_A1) else Body (Document feed_B1))"

definition feed_bad_ttl :: json where
  "feed_bad_ttl =
     JObj [(''data'', JObj [(''stations'',
              JArr [JObj [(''station_id'', JStr ''7001''), (''num_bikes_available'', JInt 4)]])]),
           (''ttl'', JStr ''soon'')]"

definition response_bad_ttl :: StationStatusAPIResponse where
  "response_bad_ttl =
     \<lparr>Data_Stations =
        \<lparr>elems = [zero_StationStatus\<lparr>ID := ''7001'', BikesAvailable := 4\<rparr>],
         spare = replicate 3 zero_StationStatus\<rparr>,
      LastUpdated = 0, TTL = 0\<rparr>"

definition entry_a :: json where
  "entry_a = JObj [(''station_id'', JStr ''a''), (''num_bikes_disabled'', JInt 5)]"

definition entry_b :: json where
  "entry_b = JObj [(''station_id'', JStr ''b'')]"

definition mixed_feed :: json where
  "mixed_feed = JObj [(''data'', JObj [(''stations'', JArr [entry_a, entry_b])])]"

definition dup_feed :: json where
  "dup_feed =
     JObj [(''data'', JObj [(''stations'', JArr [entry_a]), (''stations'', JArr [entry_b])])]"

section \<open>Properties of the decoder\<close>

subsection \<open>Errors are kept\<close>

lemma snd_store_int64_Some [simp]: "snd (store_int64 v w (Some e)) = Some e"
  by (cases v) (simp_all add: saveError_def)

lemma snd_store_string_Some [simp]: "snd (store_string v w (Some e)) = Some e"
  by (cases v) (simp_all add: saveError_def)

lemma alias_store_Some [simp]: "snd (alias_store f v (a, Some e)) = Some e"
  by (cases f) (simp_all add: alias_store_def split_beta)

lemma alias_member_Some [simp]: "snd (alias_member m (a, Some e)) = Some e"
  by (simp add: alias_member_def split: option.split)

lemma fold_alias_member_Some [simp]: "snd (fold alias_member ms (a, Some e)) = Some e"
proof (induction ms arbitrary: a)
  case Nil then show ?case by simp
next
  case (Cons m ms)
  obtain a1 where "alias_member m (a, Some e) = (a1, Some e)"
    using alias_member_Some [of m a e] by (cases "alias_member m (a, Some e)") simp
  then show ?case using Cons.IH [of a1] by simp
qed

subsection \<open>The three integers of \<^verbatim>\<open>alias\<close>\<close>

lemma snd_store_int64_None: "snd (store_int64 v w None) = None \<longleftrightarrow> storable v"
  by (cases v) (simp_all add: storable_def saveError_def)

lemma fst_store_int64: "storable v \<Longrightarrow> fst (store_int64 v w saved) = stored v w"
  by (cases v) (simp_all add: storable_def stored_def)

lemma alias_store_ints:
  assumes "alias_store g v (a, None) = (a1, None)"
  shows "Installed_int a1 = (if g = F_Installed then stored v (Installed_int a) else Installed_int a)"
    and "Renting_int a1 = (if g = F_Renting then stored v (Renting_int a) else Renting_int a)"
    and "Returning_int a1 = (if g = F_Returning then stored v (Returning_int a) else Returning_int a)"
    and "g \<noteq> F_ID \<Longrightarrow> storable v"
proof -
  have s: "snd (alias_store g v (a, None)) = None"
    and f: "a1 = fst (alias_store g v (a, None))"
    using assms by simp_all
  show "g \<noteq> F_ID \<Longrightarrow> storable v"
    using s by (cases g) (simp_all add: alias_store_def split_beta snd_store_int64_None)
  show "Installed_int a1 = (if g = F_Installed then stored v (Installed_int a) else Installed_int a)"
    using s unfolding f
    by (cases g) (simp_all add: alias_store_def split_beta snd_store_int64_None fst_store_int64)
  show "Renting_int a1 = (if g = F_Renting then stored v (Renting_int a) else Renting_int a)"
    using s unfolding f
    by (cases g) (simp_all add: alias_store_def split_beta snd_store_int64_None fst_store_int64)
  show "Returning_int a1 = (if g = F_Returning then stored v (Returning_int a) else Returning_int a)"
    using s unfolding f
    by (cases g) (simp_all add: alias_store_def split_beta snd_store_int64_None fst_store_int64)
qed

lemma wire_values_Cons:
  "wire_values f (m # ms) =
     (if field_for alias_fields (fst m) = Some f then snd m # wire_values f ms
      else wire_values f ms)"
  by (simp add: wire_values_def)

lemma fold_alias_member_ints:
  "fold alias_member ms (a, None) = (a', None) \<Longrightarrow>
     Installed_int a' = fold stored (wire_values F_Installed ms) (Installed_int a) \<and>
     Renting_int a' = fold stored (wire_values F_Renting ms) (Renting_int a) \<and>
     Returning_int a' = fold stored (wire_values F_Returning ms) (Returning_int a) \<and>
     list_all storable (wire_values F_Installed ms) \<and>
     list_all storable (wire_values F_Renting ms) \<and>
     list_all storable (wire_values F_Returning ms)"
proof (induction ms arbitrary: a)
  case Nil
  then show ?case by (simp add: wire_values_def)
next
  case (Cons m ms)
  obtain a1 e1 where step: "alias_member m (a, None) = (a1, e1)"
    by (cases "alias_member m (a, None)")
  have rest: "fold alias_member ms (a1, e1) = (a', None)"
    using Cons.prems step by simp
  have e1: "e1 = None"
  proof (cases e1)
    case None then show ?thesis .
  next
    case (Some e)
    then have "snd (fold alias_member ms (a1, e1)) = Some e" by simp
    then show ?thesis using rest by simp
  qed
  note ih = Cons.IH [OF rest [unfolded e1]]
  show ?case
  proof (cases "field_for alias_fields (fst m)")
    case None
    then have "a1 = a" using step by (simp add: alias_member_def)
    then show ?thesis using ih None by (simp add: wire_values_Cons)
  next
    case (Some g)
    then have "alias_store g (snd m) (a, None) = (a1, None)"
      using step e1 by (simp add: alias_member_def)
    note st = alias_store_ints [OF this]
    show ?thesis using ih st Some by (cases g) (simp_all add: wire_values_Cons)
  qed
qed

lemma in_int64_word_0: "in_int64 n \<Longrightarrow> (word_of_int n :: int64) = 0 \<longleftrightarrow> n = 0"
proof
  assume r: "in_int64 n" and z: "(word_of_int n :: int64) = 0"
  have "sint (word_of_int n :: int64) = signed_take_bit 63 n"
    by (simp add: sint_sbintrunc')
  also have "\<dots> = n"
    by (rule signed_take_bit_int_eq_self) (use r in \<open>simp_all add: in_int64_def\<close>)
  finally have "sint (word_of_int n :: int64) = n" .
  then show "n = 0" using z by simp
qed simp

lemma fold_stored_last_int:
  "list_all storable vs \<Longrightarrow> in_int64 n \<Longrightarrow>
     fold stored vs (word_of_int n) = word_of_int (fold last_int vs n) \<and>
     in_int64 (fold last_int vs n)"
proof (induction vs arbitrary: n)
  case Nil then show ?case by simp
next
  case (Cons v vs)
  then show ?case
    by (cases v) (simp_all add: storable_def stored_def last_int_def)
qed

lemma wire_bool:
  assumes "list_all storable (wire_values f ms)"
  shows "fold stored (wire_values f ms) 0 \<noteq> 0 \<longleftrightarrow> wire_int f ms \<noteq> 0"
proof -
  have z: "in_int64 0" by (simp add: in_int64_def)
  from fold_stored_last_int [OF assms z] in_int64_word_0 show ?thesis
    by (simp add: wire_int_def)
qed

text \<open>
  Claim C1. When \<^verbatim>\<open>UnmarshalJSON\<close> decodes a station object without error, each of
  \<^verbatim>\<open>Installed\<close>, \<^verbatim>\<open>Renting\<close> and \<^verbatim>\<open>Returning\<close> is false when the integer the wire gives
  for \<^verbatim>\<open>is_installed\<close>, \<^verbatim>\<open>is_renting\<close>, \<^verbatim>\<open>is_returning\<close> is 0 and true when it is any
  other integer.
\<close>

theorem UnmarshalJSON_booleans:
  assumes "UnmarshalJSON (JObj ms) s = Return (s', None)"
  shows "Installed s' = (wire_int F_Installed ms \<noteq> 0) \<and>
         Renting s' = (wire_int F_Renting ms \<noteq> 0) \<and>
         Returning s' = (wire_int F_Returning ms \<noteq> 0)"
proof -
  obtain a e where fo: "fold alias_member ms
      (\<lparr>Installed_int = 0, Renting_int = 0, Returning_int = 0, Alias = s\<rparr>, None) = (a, e)"
    by (cases "fold alias_member ms
      (\<lparr>Installed_int = 0, Renting_int = 0, Returning_int = 0, Alias = s\<rparr>, None)")
  from assms fo have e: "e = None" by (cases e) simp_all
  from assms fo e have s': "s' = (Alias a)\<lparr>Installed := Installed_int a \<noteq> 0,
      Renting := Renting_int a \<noteq> 0, Returning := Returning_int a \<noteq> 0\<rparr>"
    by simp
  from fold_alias_member_ints [OF fo [unfolded e]] wire_bool show ?thesis
    unfolding s' by simp
qed

lemmas decoder_defs =
  alias_member_def alias_store_def field_for_def alias_fields_def data_fields_def top_fields_def
  in_int64_def is_letter_def upper_def top_member_def data_member_def
  zero_StationStatusAPIResponse_def nil_slice_def zero_StationStatus_def grow_def cap_def
  SetLen_def slot_def

theorem UnmarshalJSON_booleans_witness:
  "UnmarshalJSON (JObj members_s1) zero_StationStatus = Return (status_s1, None) \<and>
   wire_int F_Installed members_s1 = 2 \<and> Installed status_s1 \<and>
   wire_int F_Renting members_s1 = - 1 \<and> Renting status_s1 \<and>
   wire_int F_Returning members_s1 = 0 \<and> \<not> Returning status_s1"
proof -
  have h: "UnmarshalJSON (JObj members_s1) zero_StationStatus = Return (status_s1, None)"
    by (simp add: members_s1_def status_s1_def decoder_defs)
  show ?thesis using h UnmarshalJSON_booleans [OF h]
    by (simp add: members_s1_def status_s1_def wire_int_def wire_values_def last_int_def
        decoder_defs)
qed

subsection \<open>Removing an optional field from a payload\<close>

lemma alias_store_other:
  "g \<noteq> field_of opt \<Longrightarrow>
     alias_store g v (za opt a, e) =
       (za opt (fst (alias_store g v (a, e))), snd (alias_store g v (a, e)))"
  by (cases opt; cases g) (simp_all add: alias_store_def split_beta za_def zeroed_def field_of_def)

lemma alias_store_given:
  "za opt (fst (alias_store (field_of opt) v (a, e))) = za opt a"
  by (cases opt) (simp_all add: alias_store_def split_beta za_def zeroed_def field_of_def)

lemma fold_alias_member_without:
  "fold alias_member ms (a, None) = (a', None) \<Longrightarrow>
     fold alias_member (filter (\<lambda>m. \<not> gives opt m) ms) (za opt a, None) = (za opt a', None)"
proof (induction ms arbitrary: a)
  case Nil
  then show ?case by simp
next
  case (Cons m ms)
  obtain a1 e1 where step: "alias_member m (a, None) = (a1, e1)"
    by (cases "alias_member m (a, None)")
  have rest: "fold alias_member ms (a1, e1) = (a', None)"
    using Cons.prems step by simp
  have e1: "e1 = None"
  proof (cases e1)
    case None then show ?thesis .
  next
    case (Some e)
    then have "snd (fold alias_member ms (a1, e1)) = Some e" by simp
    then show ?thesis using rest by simp
  qed
  note ih = Cons.IH [OF rest [unfolded e1]]
  show ?case
  proof (cases "field_for alias_fields (fst m)")
    case None
    then have "a1 = a" and "\<not> gives opt m"
      using step by (simp_all add: alias_member_def gives_def)
    then show ?thesis using ih None by (simp add: alias_member_def)
  next
    case (Some g)
    then have st: "alias_store g (snd m) (a, None) = (a1, None)"
      using step e1 by (simp add: alias_member_def)
    show ?thesis
    proof (cases "g = field_of opt")
      case True
      then have "gives opt m" using Some by (simp add: gives_def)
      moreover have "za opt a1 = za opt a"
        using alias_store_given [of opt "snd m" a None] st True by simp
      ultimately show ?thesis using ih by simp
    next
      case False
      then have "\<not> gives opt m" using Some by (simp add: gives_def)
      moreover have "alias_member m (za opt a, None) = (za opt a1, None)"
        using alias_store_other [OF False, of "snd m" a None] st Some
        by (simp add: alias_member_def)
      ultimately show ?thesis using ih by simp
    qed
  qed
qed

lemma UnmarshalJSON_without:
  assumes "UnmarshalJSON x s = Return (s', None)"
  shows "UnmarshalJSON (station_without opt x) (zeroed opt s) = Return (zeroed opt s', None)"
proof (cases x)
  case (JObj ms)
  obtain a e where fo: "fold alias_member ms
      (\<lparr>Installed_int = 0, Renting_int = 0, Returning_int = 0, Alias = s\<rparr>, None) = (a, e)"
    by (cases "fold alias_member ms
      (\<lparr>Installed_int = 0, Renting_int = 0, Returning_int = 0, Alias = s\<rparr>, None)")
  from assms fo JObj have e: "e = None" by (cases e) simp_all
  from assms fo e JObj have s': "s' = (Alias a)\<lparr>Installed := Installed_int a \<noteq> 0,
      Renting := Renting_int a \<noteq> 0, Returning := Returning_int a \<noteq> 0\<rparr>"
    by simp
  have "za opt \<lparr>Installed_int = 0, Renting_int = 0, Returning_int = 0, Alias = s\<rparr> =
      \<lparr>Installed_int = 0, Renting_int = 0, Returning_int = 0, Alias = zeroed opt s\<rparr>"
    by (simp add: za_def)
  with fold_alias_member_without [OF fo [unfolded e], of opt]
  have "fold alias_member (filter (\<lambda>m. \<not> gives opt m) ms)
      (\<lparr>Installed_int = 0, Renting_int = 0, Returning_int = 0, Alias = zeroed opt s\<rparr>, None)
      = (za opt a, None)"
    by simp
  then show ?thesis
    unfolding s' JObj by (cases opt) (simp_all add: station_without_def za_def zeroed_def)
qed (use assms in simp_all)

lemma zeroed_zero [simp]: "zeroed opt zero_StationStatus = zero_StationStatus"
  by (cases opt) (simp_all add: zeroed_def zero_StationStatus_def)

lemma zeroed_slice_simps [simp]:
  "elems (zeroed_slice opt v) = map (zeroed opt) (elems v)"
  "spare (zeroed_slice opt v) = map (zeroed opt) (spare v)"
  "cap (zeroed_slice opt v) = cap v"
  by (simp_all add: zeroed_slice_def cap_def)

lemma grow_zeroed: "grow (zeroed_slice opt v) = zeroed_slice opt (grow v)"
  by (simp add: grow_def Let_def zeroed_slice_def cap_def)

lemma SetLen_zeroed: "SetLen n (zeroed_slice opt v) = zeroed_slice opt (SetLen n v)"
  by (simp add: SetLen_def zeroed_slice_def take_map drop_map flip: map_append)

lemma update_zeroed:
  "(zeroed_slice opt v)\<lparr>elems := (map (zeroed opt) (elems v))[i := zeroed opt s]\<rparr> =
     zeroed_slice opt (v\<lparr>elems := (elems v)[i := s]\<rparr>)"
  by (simp add: zeroed_slice_def map_update)

lemma slot_zeroed: "slot i (zeroed_slice opt v) = zeroed_slice opt (slot i v)"
  by (simp add: slot_def Let_def grow_zeroed SetLen_zeroed)

lemma zeroed_slice_empty:
  "zeroed_slice opt \<lparr>elems = [], spare = []\<rparr> = \<lparr>elems = [], spare = []\<rparr>"
  by (simp add: zeroed_slice_def)

lemma array_elems_without:
  "array_elems xs i v = Decoded v' \<Longrightarrow>
     array_elems (map (station_without opt) xs) i (zeroed_slice opt v) = Decoded (zeroed_slice opt v')"
proof (induction xs arbitrary: i v)
  case Nil
  then show ?case
    by (auto simp add: Let_def SetLen_zeroed zeroed_slice_empty split: if_splits)
next
  case (Cons x xs)
  define v2 where "v2 = slot i v"
  show ?case
  proof (cases "i < length (elems v2)")
    case False
    with Cons.prems have "array_elems xs (i + 1) v2 = Decoded v'"
      by (simp add: Let_def v2_def)
    from Cons.IH [OF this] False show ?thesis
      by (simp add: Let_def slot_zeroed v2_def)
  next
    case True
    with Cons.prems obtain s where
      u: "UnmarshalJSON x (elems v2 ! i) = Return (s, None)" and
      r: "array_elems xs (i + 1) (v2\<lparr>elems := (elems v2)[i := s]\<rparr>) = Decoded v'"
      by (auto simp add: Let_def v2_def split: outcome.splits option.splits)
    have u': "UnmarshalJSON (station_without opt x) (elems (zeroed_slice opt v2) ! i) =
        Return (zeroed opt s, None)"
      using UnmarshalJSON_without [OF u, of opt] True by simp
    have "array_elems (station_without opt x # map (station_without opt) xs) i (zeroed_slice opt v) =
        array_elems (map (station_without opt) xs) (i + 1)
          ((zeroed_slice opt v2)\<lparr>elems := (elems (zeroed_slice opt v2))[i := zeroed opt s]\<rparr>)"
      using True u' by (simp add: Let_def slot_zeroed v2_def)
    also have "\<dots> = Decoded (zeroed_slice opt v')"
      using Cons.IH [OF r] by (simp add: update_zeroed)
    finally show ?thesis by simp
  qed
qed

lemma members_saved:
  assumes f: "\<And>m st e st' sv. f m (st, Some e) = Decoded (st', sv) \<Longrightarrow> sv = Some e"
  shows "members f ms (st, Some e) = Decoded (st', sv) \<Longrightarrow> sv = Some e"
proof (induction ms arbitrary: st)
  case Nil
  then show ?case by simp
next
  case (Cons m ms)
  from Cons.prems obtain st1 sv1 where
    1: "f m (st, Some e) = Decoded (st1, sv1)" and 2: "members f ms (st1, sv1) = Decoded (st', sv)"
    by (auto split: decoded.splits)
  from f [OF 1] have "sv1 = Some e" .
  with 2 Cons.IH show ?case by simp
qed

lemma members_without:
  assumes f: "\<And>m st e st' sv. f m (st, Some e) = Decoded (st', sv) \<Longrightarrow> sv = Some e"
    and step: "\<And>m st st'. f m (st, None) = Decoded (st', None) \<Longrightarrow>
                 f (h m) (z st, None) = Decoded (z st', None)"
  shows "members f ms (st, None) = Decoded (st', None) \<Longrightarrow>
           members f (map h ms) (z st, None) = Decoded (z st', None)"
proof (induction ms arbitrary: st)
  case Nil
  then show ?case by simp
next
  case (Cons m ms)
  from Cons.prems obtain st1 sv1 where
    1: "f m (st, None) = Decoded (st1, sv1)" and 2: "members f ms (st1, sv1) = Decoded (st', None)"
    by (auto split: decoded.splits)
  have "sv1 = None"
  proof (cases sv1)
    case None then show ?thesis .
  next
    case (Some e)
    with 2 members_saved [of f ms st1 e st' None] f show ?thesis by blast
  qed
  with 1 2 step [of m st st1] Cons.IH [of st1] show ?case by simp
qed

lemma data_member_saved:
  "data_member m (sl, Some e) = Decoded (sl', sv) \<Longrightarrow> sv = Some e"
  by (auto simp add: data_member_def saveError_def
      split: prod.splits option.splits data_field.splits json.splits decoded.splits)

lemma zeroed_nil_slice [simp]: "zeroed_slice opt nil_slice = nil_slice"
  by (simp add: zeroed_slice_def nil_slice_def)

lemma data_member_decodes_without:
  assumes "data_member m (sl, None) = Decoded (sl', None)"
  shows "data_member (data_member_without opt m) (zeroed_slice opt sl, None) =
           Decoded (zeroed_slice opt sl', None)"
proof (cases "field_for data_fields (fst m)")
  case None
  with assms show ?thesis by (simp add: data_member_def data_member_without_def split_beta)
next
  case (Some g)
  then have g: "field_for data_fields (fst m) = Some F_Stations" by (cases g) simp
  show ?thesis
  proof (cases "snd m")
    case (JArr xs)
    with assms g have "array_elems xs 0 sl = Decoded sl'"
      by (simp add: data_member_def split_beta split: decoded.splits)
    from array_elems_without [OF this, of opt] g JArr show ?thesis
      by (simp add: data_member_def data_member_without_def split_beta stations_without_def)
  qed (use assms g in \<open>simp_all add: data_member_def data_member_without_def split_beta
        stations_without_def saveError_def\<close>)
qed

lemma members_data_member_without:
  "members data_member ms (sl, None) = Decoded (sl', None) \<Longrightarrow>
     members data_member (map (data_member_without opt) ms) (zeroed_slice opt sl, None) =
       Decoded (zeroed_slice opt sl', None)"
  by (rule members_without [where z = "zeroed_slice opt"])
     (auto dest: data_member_saved data_member_decodes_without)

lemma snd_store_int64_saved: "store_int64 v w (Some e) = (w', sv) \<Longrightarrow> sv = Some e"
  using snd_store_int64_Some [of v w e] by simp

lemma members_data_member_saved:
  "members data_member ms (sl, Some e) = Decoded (sl', sv) \<Longrightarrow> sv = Some e"
  by (rule members_saved [of data_member]) (auto dest: data_member_saved)

lemma top_member_saved:
  "top_member m (resp, Some e) = Decoded (resp', sv) \<Longrightarrow> sv = Some e"
  by (auto simp add: top_member_def saveError_def
      split: option.splits top_field.splits json.splits decoded.splits prod.splits
      dest: members_data_member_saved snd_store_int64_saved)

lemma top_member_decodes_without:
  assumes "top_member m (resp, None) = Decoded (resp', None)"
  shows "top_member (top_member_without opt m) (zeroed_response opt resp, None) =
           Decoded (zeroed_response opt resp', None)"
proof (cases "field_for top_fields (fst m)")
  case None
  with assms show ?thesis by (simp add: top_member_def top_member_without_def split_beta)
next
  case (Some g)
  show ?thesis
  proof (cases g)
    case F_Data
    show ?thesis
    proof (cases "snd m")
      case (JObj ms)
      with assms Some F_Data obtain sl where
        1: "members data_member ms (Data_Stations resp, None) = Decoded (sl, None)" and
        2: "resp' = resp\<lparr>Data_Stations := sl\<rparr>"
        by (auto simp add: top_member_def split_beta split: decoded.splits)
      from members_data_member_without [OF 1, of opt] 2 Some F_Data JObj show ?thesis
        by (simp add: top_member_def top_member_without_def split_beta data_without_def
            zeroed_response_def)
    qed (use assms Some F_Data in \<open>simp_all add: top_member_def top_member_without_def split_beta
          data_without_def saveError_def\<close>)
  next
    case F_LastUpdated
    with assms Some show ?thesis
      by (auto simp add: top_member_def top_member_without_def split_beta zeroed_response_def)
  next
    case F_TTL
    with assms Some show ?thesis
      by (auto simp add: top_member_def top_member_without_def split_beta zeroed_response_def)
  qed
qed

lemma members_top_member_without:
  "members top_member ms (resp, None) = Decoded (resp', None) \<Longrightarrow>
     members top_member (map (top_member_without opt) ms) (zeroed_response opt resp, None) =
       Decoded (zeroed_response opt resp', None)"
  by (rule members_without [where z = "zeroed_response opt"])
     (auto dest: top_member_saved top_member_decodes_without)

lemma zeroed_zero_response [simp]:
  "zeroed_response opt zero_StationStatusAPIResponse = zero_StationStatusAPIResponse"
  by (simp add: zeroed_response_def zero_StationStatusAPIResponse_def)

lemma GetStationStatuses_without:
  assumes "GetStationStatuses (Document j) = Return (Some resp, None)"
  shows "GetStationStatuses (Document (payload_without opt j)) =
           Return (Some (zeroed_response opt resp), None)"
proof (cases j)
  case (JObj ms)
  with assms have "members top_member ms (zero_StationStatusAPIResponse, None) = Decoded (resp, None)"
    by (auto split: decoded.splits)
  from members_top_member_without [OF this, of opt] JObj show ?thesis
    by (simp add: payload_without_def)
qed (use assms in simp_all)

lemma station_without_id: "station_lacks opt x \<Longrightarrow> station_without opt x = x"
  by (cases x) (simp_all add: station_lacks_def station_without_def list_all_iff)

lemma stations_without_id: "stations_lack opt v \<Longrightarrow> stations_without opt v = v"
  by (cases v)
     (simp_all add: stations_lack_def stations_without_def list_all_iff station_without_id map_idI)

lemma data_without_id: "data_lacks opt v \<Longrightarrow> data_without opt v = v"
  by (cases v)
     (auto simp add: data_lacks_def data_without_def list_all_iff data_member_without_def
        stations_without_id intro!: map_idI split: if_splits)

lemma payload_without_id: "payload_lacks opt j \<Longrightarrow> payload_without opt j = j"
  by (cases j)
     (auto simp add: payload_lacks_def payload_without_def list_all_iff top_member_without_def
        data_without_id intro!: map_idI split: if_splits)

lemma decoded_field_zeroed [simp]: "decoded_field opt (zeroed opt s) = 0"
  by (cases opt) (simp_all add: decoded_field_def zeroed_def)

subsection \<open>Each entry of a payload whose keys are not repeated\<close>

lemma alias_store_keeps:
  "g \<noteq> field_of opt \<Longrightarrow>
     decoded_field opt (Alias (fst (alias_store g v (a, e)))) = decoded_field opt (Alias a)"
  by (cases opt; cases g) (simp_all add: alias_store_def split_beta decoded_field_def field_of_def)

lemma alias_member_keeps:
  "\<not> gives opt m \<Longrightarrow>
     decoded_field opt (Alias (fst (alias_member m st))) = decoded_field opt (Alias (fst st))"
  by (cases st) (auto simp add: alias_member_def gives_def alias_store_keeps split: option.splits)

lemma fold_alias_member_keeps:
  "list_all (\<lambda>m. \<not> gives opt m) ms \<Longrightarrow>
     decoded_field opt (Alias (fst (fold alias_member ms st))) = decoded_field opt (Alias (fst st))"
  by (induction ms arbitrary: st) (simp_all add: alias_member_keeps)

lemma UnmarshalJSON_lacks:
  assumes "station_lacks opt x" and "UnmarshalJSON x s = Return (s', e)"
  shows "decoded_field opt s' = decoded_field opt s"
proof (cases x)
  case (JObj ms)
  let ?st = "(\<lparr>Installed_int = 0, Renting_int = 0, Returning_int = 0, Alias = s\<rparr>, None :: go_error option)"
  have l: "list_all (\<lambda>m. \<not> gives opt m) ms" using assms(1) JObj by (simp add: station_lacks_def)
  have k: "decoded_field opt (Alias (fst (fold alias_member ms ?st))) = decoded_field opt s"
    using fold_alias_member_keeps [OF l, of ?st] by simp
  obtain a e' where fo: "fold alias_member ms ?st = (a, e')" by (cases "fold alias_member ms ?st")
  show ?thesis
    using assms(2) k JObj fo
    by (cases e'; cases opt) (auto simp add: decoded_field_def)
qed (use assms in auto)

lemma slot_facts:
  assumes "i \<le> length (elems v)" and "fresh_from i v"
  shows "i < length (elems (slot i v))"
    and "take i (elems (slot i v)) = take i (elems v)"
    and "fresh_from i (slot i v)"
proof -
  show "i < length (elems (slot i v))"
    using assms(1) by (auto simp add: slot_def Let_def grow_def cap_def SetLen_def)
  show "take i (elems (slot i v)) = take i (elems v)"
    using assms(1) by (auto simp add: slot_def Let_def grow_def cap_def SetLen_def)
  show "fresh_from i (slot i v)"
    using assms
    by (auto simp add: slot_def Let_def grow_def cap_def SetLen_def fresh_from_def list_all_iff
        dest: in_set_takeD in_set_dropD)
qed

lemma array_elems_fresh:
  assumes "array_elems xs i v = Decoded v'" and "i \<le> length (elems v)" and "fresh_from i v"
  shows "take i (elems v') = take i (elems v) \<and> length (elems v') = i + length xs \<and>
         list_all2 decodes_to xs (drop i (elems v'))"
  using assms
proof (induction xs arbitrary: i v)
  case Nil
  then show ?case
    by (auto simp add: Let_def SetLen_def split: if_splits)
next
  case (Cons x xs)
  define v2 where "v2 = slot i v"
  note sf = slot_facts [OF Cons.prems(2,3), folded v2_def]
  from Cons.prems(1) sf(1) obtain s where
    u: "UnmarshalJSON x (elems v2 ! i) = Return (s, None)" and
    r: "array_elems xs (i + 1) (v2\<lparr>elems := (elems v2)[i := s]\<rparr>) = Decoded v'"
    by (auto simp add: Let_def v2_def split: outcome.splits option.splits)
  define v3 where "v3 = v2\<lparr>elems := (elems v2)[i := s]\<rparr>"
  have z: "elems v2 ! i = zero_StationStatus"
  proof -
    have "elems v2 ! i = (elems v2 @ spare v2) ! i" using sf(1) by (simp add: nth_append)
    also have "\<dots> \<in> set (drop i (elems v2 @ spare v2))"
      using sf(1) by (metis (no_types, lifting) Cons_nth_drop_Suc length_append list.set_intros(1)
          trans_less_add1)
    finally show ?thesis using sf(3) by (simp add: fresh_from_def list_all_iff)
  qed
  have l3: "i + 1 \<le> length (elems v3)" using sf(1) by (simp add: v3_def)
  have f3: "fresh_from (i + 1) v3"
  proof -
    have "drop (i + 1) (elems v3 @ spare v3) = drop (i + 1) (elems v2 @ spare v2)"
      using sf(1) by (simp add: v3_def drop_update_cancel)
    also have "set \<dots> \<subseteq> set (drop i (elems v2 @ spare v2))"
      by (metis add.commute drop_drop set_drop_subset)
    finally show ?thesis using sf(3) by (auto simp add: fresh_from_def list_all_iff)
  qed
  from Cons.IH [OF r [folded v3_def] l3 f3]
  have t: "take (i + 1) (elems v') = take (i + 1) (elems v3)"
    and n: "length (elems v') = i + 1 + length xs"
    and a: "list_all2 decodes_to xs (drop (i + 1) (elems v'))"
    by simp_all
  have i': "i < length (elems v')" using n by simp
  have "elems v' ! i = take (i + 1) (elems v') ! i" by simp
  also have "\<dots> = elems v3 ! i" using t by simp
  also have "\<dots> = s" using sf(1) by (simp add: v3_def)
  finally have e: "elems v' ! i = s" .
  have "take i (elems v') = take i (take (i + 1) (elems v'))" by (simp add: min_def)
  also have "\<dots> = take i (elems v3)" using t by (simp add: min_def)
  also have "\<dots> = take i (elems v2)" by (simp add: v3_def)
  also have "\<dots> = take i (elems v)" by (rule sf(2))
  finally have tk: "take i (elems v') = take i (elems v)" .
  have d: "drop i (elems v') = s # drop (i + 1) (elems v')"
    using i' e by (metis Cons_nth_drop_Suc Suc_eq_plus1)
  have "decodes_to x s" using u z by (simp add: decodes_to_def)
  with a d tk n show ?case by simp
qed

lemma data_member_other: "\<not> is_stations m \<Longrightarrow> data_member m st = Decoded st"
proof -
  assume n: "\<not> is_stations m"
  have "field_for data_fields (fst m) = None"
  proof (cases "field_for data_fields (fst m)")
    case (Some g)
    then show ?thesis using n by (cases g) (simp add: is_stations_def)
  qed simp
  then show ?thesis by (cases m; cases st) (simp add: data_member_def)
qed

lemma members_data_no_stations:
  "filter is_stations dms = [] \<Longrightarrow> members data_member dms st = Decoded st"
  by (induction dms) (auto simp add: data_member_other split: if_splits)

lemma fresh_nil_slice: "fresh_from 0 nil_slice"
  by (simp add: fresh_from_def nil_slice_def)

lemma data_member_stations:
  assumes "is_stations m" and "data_member m (nil_slice, None) = Decoded (sl', None)"
  shows "list_all2 decodes_to (array_entries (snd m)) (elems sl')"
proof -
  have g: "field_for data_fields (fst m) = Some F_Stations"
    using assms(1) by (simp add: is_stations_def)
  show ?thesis
  proof (cases "snd m")
    case (JArr xs)
    with assms(2) g have "array_elems xs 0 nil_slice = Decoded sl'"
      by (simp add: data_member_def split_beta split: decoded.splits)
    from array_elems_fresh [OF this _ fresh_nil_slice] JArr show ?thesis
      by (simp add: array_entries_def)
  qed (use assms(2) g in \<open>auto simp add: data_member_def split_beta saveError_def
        array_entries_def nil_slice_def\<close>)
qed

lemma members_data_once:
  assumes "members data_member dms (nil_slice, None) = Decoded (sl', None)"
    and "length (filter is_stations dms) \<le> 1"
  shows "list_all2 decodes_to (data_entries (JObj dms)) (elems sl')"
  using assms
proof (induction dms)
  case Nil
  then show ?case by (auto simp add: data_entries_def nil_slice_def)
next
  case (Cons m dms)
  show ?case
  proof (cases "is_stations m")
    case True
    with Cons.prems(2) have none: "filter is_stations dms = []" by simp
    from Cons.prems(1) obtain st1 where
      1: "data_member m (nil_slice, None) = Decoded st1" and
      2: "members data_member dms st1 = Decoded (sl', None)"
      by (auto split: decoded.splits)
    from 2 members_data_no_stations [OF none] have "st1 = (sl', None)" by simp
    with 1 data_member_stations [OF True] True none show ?thesis
      by (simp add: data_entries_def)
  next
    case False
    with Cons.prems(1) have "members data_member dms (nil_slice, None) = Decoded (sl', None)"
      by (simp add: data_member_other)
    from Cons.IH [OF this] Cons.prems(2) False show ?thesis
      by (simp add: data_entries_def)
  qed
qed

lemma top_member_other:
  assumes "\<not> is_data m" and "top_member m (resp, sv) = Decoded (resp', sv')"
  shows "Data_Stations resp' = Data_Stations resp"
proof (cases "field_for top_fields (fst m)")
  case None
  with assms(2) show ?thesis by (simp add: top_member_def split_beta)
next
  case (Some g)
  with assms show ?thesis
    by (cases g) (auto simp add: top_member_def split_beta is_data_def)
qed

lemma top_member_other_Decoded:
  "\<not> is_data m \<Longrightarrow> \<exists>st'. top_member m st = Decoded st'"
proof (cases "field_for top_fields (fst m)")
  case None
  then show ?thesis by (cases st) (simp add: top_member_def split_beta)
next
  case (Some g)
  assume "\<not> is_data m"
  with Some show ?thesis
    by (cases g; cases st) (auto simp add: top_member_def split_beta is_data_def)
qed

lemma members_top_no_data:
  "filter is_data ms = [] \<Longrightarrow> members top_member ms (resp, sv) = Decoded (resp', sv') \<Longrightarrow>
     Data_Stations resp' = Data_Stations resp"
proof (induction ms arbitrary: resp sv)
  case Nil
  then show ?case by simp
next
  case (Cons m ms)
  from Cons.prems(1) have n: "\<not> is_data m" and r: "filter is_data ms = []"
    by (auto split: if_splits)
  from Cons.prems(2) obtain resp1 sv1 where
    1: "top_member m (resp, sv) = Decoded (resp1, sv1)" and
    2: "members top_member ms (resp1, sv1) = Decoded (resp', sv')"
    by (auto split: decoded.splits)
  from top_member_other [OF n 1] Cons.IH [OF r 2] show ?case by simp
qed

lemma top_member_data:
  assumes "is_data m" and "data_keys_once (snd m)" and "Data_Stations resp = nil_slice"
    and "top_member m (resp, None) = Decoded (resp', None)"
  shows "list_all2 decodes_to (data_entries (snd m)) (elems (Data_Stations resp'))"
proof -
  have g: "field_for top_fields (fst m) = Some F_Data"
    using assms(1) by (simp add: is_data_def)
  show ?thesis
  proof (cases "snd m")
    case (JObj dms)
    with assms(3,4) g obtain sl where
      1: "members data_member dms (nil_slice, None) = Decoded (sl, None)" and
      2: "resp' = resp\<lparr>Data_Stations := sl\<rparr>"
      by (auto simp add: top_member_def split_beta split: decoded.splits)
    from members_data_once [OF 1] assms(2) JObj 2 show ?thesis
      by (simp add: data_keys_once_def)
  qed (use assms(3,4) g in \<open>auto simp add: top_member_def split_beta saveError_def
        data_entries_def nil_slice_def\<close>)
qed

lemma members_top_once:
  assumes "members top_member ms (resp, None) = Decoded (resp', None)"
    and "Data_Stations resp = nil_slice" and "keys_once (JObj ms)"
  shows "list_all2 decodes_to (entries (JObj ms)) (elems (Data_Stations resp'))"
  using assms
proof (induction ms arbitrary: resp)
  case Nil
  then show ?case by (auto simp add: entries_def nil_slice_def)
next
  case (Cons m ms)
  from Cons.prems(1) obtain resp1 sv1 where
    1: "top_member m (resp, None) = Decoded (resp1, sv1)" and
    2: "members top_member ms (resp1, sv1) = Decoded (resp', None)"
    by (auto split: decoded.splits)
  have sv1: "sv1 = None"
  proof (cases sv1)
    case None then show ?thesis .
  next
    case (Some e)
    with 2 members_saved [of top_member ms resp1 e resp' None] top_member_saved
    show ?thesis by blast
  qed
  show ?case
  proof (cases "is_data m")
    case True
    with Cons.prems(3) have none: "filter is_data ms = []" and once: "data_keys_once (snd m)"
      by (simp_all add: keys_once_def)
    from members_top_no_data [OF none 2]
    have "Data_Stations resp' = Data_Stations resp1" .
    with top_member_data [OF True once Cons.prems(2) 1 [unfolded sv1]] True none show ?thesis
      by (simp add: entries_def)
  next
    case False
    from top_member_other [OF False 1] Cons.prems(2)
    have n: "Data_Stations resp1 = nil_slice" by simp
    have k: "keys_once (JObj ms)" using Cons.prems(3) False by (simp add: keys_once_def)
    from Cons.IH [OF 2 [unfolded sv1] n k] False show ?thesis
      by (simp add: entries_def)
  qed
qed

lemma GetStationStatuses_entries:
  assumes "GetStationStatuses (Document j) = Return (Some resp, None)" and "keys_once j"
  shows "list_all2 decodes_to (entries j) (elems (Data_Stations resp))"
proof (cases j)
  case (JObj ms)
  with assms(1) have "members top_member ms (zero_StationStatusAPIResponse, None) =
      Decoded (resp, None)"
    by (auto split: decoded.splits)
  from members_top_once [OF this] assms(2) JObj show ?thesis
    by (simp add: zero_StationStatusAPIResponse_def)
qed (use assms(1) in simp_all)

lemma decodes_to_defaults: "decodes_to x s \<Longrightarrow> defaults opt x s"
proof -
  assume d: "decodes_to x s"
  have z: "decoded_field opt zero_StationStatus = 0"
    by (cases opt) (simp_all add: decoded_field_def zero_StationStatus_def)
  show ?thesis
    using UnmarshalJSON_lacks [of opt x zero_StationStatus s None] d z
    by (simp add: defaults_def decodes_to_def)
qed

subsection \<open>The optional fields\<close>

lemma payload_lacks_default:
  assumes "GetStationStatuses (Document j) = Return (Some resp, None)" and "payload_lacks opt j"
  shows "\<forall>s \<in> set (elems (Data_Stations resp)). decoded_field opt s = 0"
proof
  have "payload_without opt j = j" using assms(2) by (rule payload_without_id)
  with GetStationStatuses_without [OF assms(1), of opt] assms(1)
  have "zeroed_response opt resp = resp" by simp
  then have "elems (Data_Stations resp) = map (zeroed opt) (elems (Data_Stations resp))"
    by (metis zeroed_response_def zeroed_slice_simps(1) StationStatusAPIResponse.select_convs(1)
        StationStatusAPIResponse.surjective StationStatusAPIResponse.update_convs(1))
  then have im: "set (elems (Data_Stations resp)) = zeroed opt ` set (elems (Data_Stations resp))"
    by (metis list.set_map)
  fix s assume "s \<in> set (elems (Data_Stations resp))"
  with im obtain t where "s = zeroed opt t" by blast
  then show "decoded_field opt s = 0" by simp
qed




section \<open>Properties of the probe handlers\<close>

lemmas handler_defs =
  probeGBFS_def probeGBFS_part_001_def probeGBFS_part_000_def Values_Get_def http_Error_def
  observe_def observe_part_001_def With_Set_def registry_def registry_part_001_def Gather_def
  BuildFQName_def namespace_def float64_def BoolToFloat64_def initial_vars_def new_gauges_def

subsection \<open>Missing target\<close>

lemma Values_Get_empty:
  "params key = None \<or> params key = Some [] \<or> (\<exists>vs. params key = Some ([] # vs)) \<Longrightarrow>
     Values_Get params key = []"
  by (auto simp: Values_Get_def)

text \<open>
  Claim C9. When the query has no \<^verbatim>\<open>target\<close>, or its first \<^verbatim>\<open>target\<close> is empty, the
  handler of \<^verbatim>\<open>src/main.go\<close> replies 400 with the body \<^verbatim>\<open>Target parameter missing\<close> and a
  newline, requests no URL and leaves the gauges as they were.
\<close>

theorem probeGBFS_target_missing:
  assumes "params ''target'' = None \<or> params ''target'' = Some [] \<or>
           (\<exists>vs. params ''target'' = Some ([] # vs))"
  shows "probeGBFS Get params g =
           \<lparr>reply = Replied (Status 400 (''Target parameter missing'' @ [CHR 0x0A])),
            fetched = [], vars = g\<rparr>"
  using Values_Get_empty [of params "''target''"] assms
  by (simp add: probeGBFS_def http_Error_def)

theorem probeGBFS_target_missing_witness:
  "(Map.empty :: Values) ''target'' = None \<and>
   probeGBFS two_feeds Map.empty initial_vars =
     \<lparr>reply = Replied (Status 400 (''Target parameter missing'' @ [CHR 0x0A])),
      fetched = [], vars = initial_vars\<rparr> \<and>
   probeGBFS two_feeds [''target'' \<mapsto> [[], ''http://a'']] initial_vars =
     \<lparr>reply = Replied (Status 400 (''Target parameter missing'' @ [CHR 0x0A])),
      fetched = [], vars = initial_vars\<rparr>"
  using probeGBFS_target_missing [of Map.empty two_feeds initial_vars]
    probeGBFS_target_missing [of "[''target'' \<mapsto> [[], ''http://a'']]" two_feeds initial_vars]
  by simp

subsection \<open>Failures of the transport\<close>

text \<open>
  Claim C8. With a target given, a failure of \<^verbatim>\<open>http.Get\<close> on the target is answered
  with 400 and \<^verbatim>\<open>HTTP error:\<close> followed by the error, and a failure to read the body
  with 500.
\<close>

theorem probeGBFS_transport_failures:
  assumes "params ''target'' = Some (target # vs)" and "target \<noteq> []"
  shows "probeGBFS (Get(target := GetFailed err)) params g =
           \<lparr>reply = Replied (Status 400 (''HTTP error: '' @ Error err @ [CHR 0x0A])),
            fetched = [target], vars = g\<rparr> \<and>
         probeGBFS (Get(target := ReadFailed err)) params g =
           \<lparr>reply = Replied (Status 500
              (''Failed to read HTTP body of target '' @ [CHR 0x27] @ target @ [CHR 0x27] @ '': ''
                 @ Error err @ [CHR 0x0A])),
            fetched = [target], vars = g\<rparr>"
  using assms by (simp add: probeGBFS_def Values_Get_def http_Error_def)

theorem probeGBFS_transport_failures_witness:
  "probeGBFS (two_feeds(''http://a'' := GetFailed (TransportError ''dial tcp: no such host'')))
      [''target'' \<mapsto> [''http://a'']] initial_vars =
     \<lparr>reply = Replied (Status 400 (''HTTP error: dial tcp: no such host'' @ [CHR 0x0A])),
      fetched = [''http://a''], vars = initial_vars\<rparr> \<and>
   probeGBFS (two_feeds(''http://a'' := ReadFailed (TransportError ''unexpected EOF'')))
      [''target'' \<mapsto> [''http://a'']] initial_vars =
     \<lparr>reply = Replied (Status 500
        (''Failed to read HTTP body of target '' @ [CHR 0x27] @ ''http://a'' @ [CHR 0x27]
           @ '': unexpected EOF'' @ [CHR 0x0A])),
      fetched = [''http://a''], vars = initial_vars\<rparr>"
proof -
  have h1: "[''target'' \<mapsto> [''http://a'']] ''target'' = Some (''http://a'' # [])" by simp
  have h2: "''http://a'' \<noteq> []" by simp
  show ?thesis
    using h1 h2
      probeGBFS_transport_failures [of "[''target'' \<mapsto> [''http://a'']]" "''http://a''" "[]"
        two_feeds "TransportError ''dial tcp: no such host''" initial_vars]
      probeGBFS_transport_failures [of "[''target'' \<mapsto> [''http://a'']]" "''http://a''" "[]"
        two_feeds "TransportError ''unexpected EOF''" initial_vars]
    by (simp add: Error_def)
qed

subsection \<open>Decoding errors\<close>

lemma GetStationStatuses_bad_ttl:
  "GetStationStatuses (Document feed_bad_ttl) =
     Return (Some response_bad_ttl, Some (UnmarshalTypeError ''string'' T_int64))"
  by (simp add: feed_bad_ttl_def response_bad_ttl_def decoder_defs saveError_def)

text \<open>
  Claim C3, as stated, on the handler of \<^verbatim>\<open>part_000\<close>: the feed
  \<^verbatim>\<open>{"data":{"stations":[{"station_id":"7001","num_bikes_available":4}]},"ttl":"soon"}\<close>
  fails to decode with a type error, and the handler sets the three gauges for station
  7001 from what was decoded and renders them.
\<close>

theorem probeGBFS_part_000_counterexample:
  "GetStationStatuses (Document feed_bad_ttl) =
     Return (Some response_bad_ttl, Some (UnmarshalTypeError ''string'' T_int64)) \<and>
   probeGBFS_part_000 (\<lambda>url. Body (Document feed_bad_ttl)) initial_vars =
     \<lparr>reply = Replied (Metrics
        [(''gbfs_bikes_available'', ''7001'', 4), (''gbfs_bikes_disabled'', ''7001'', 0),
         (''gbfs_docks_available'', ''7001'', 0)]),
      fetched = [feed_url],
      vars = \<lparr>bikesAvailable = [(''7001'', 4)], bikesDisabled = [(''7001'', 0)],
              docksAvailable = [(''7001'', 0)]\<rparr>\<rparr>"
  by (simp add: feed_bad_ttl_def response_bad_ttl_def decoder_defs saveError_def handler_defs)

text \<open>
  Claim C3, amended. In the two handlers that take a target (\<^verbatim>\<open>src/main.go\<close> and
  \<^verbatim>\<open>part_001\<close>), when \<^verbatim>\<open>GetStationStatuses\<close> returns an error for the fetched body, the
  reply is 400 with a message that holds the target and the text of the error; no
  metrics are rendered and the package-level gauges are as they were.
\<close>

theorem probeGBFS_schema_error:
  assumes "params ''target'' = Some (target # vs)" and "target \<noteq> []"
    and "Get target = Body body" and "GetStationStatuses body = Return (resp, Some err)"
  shows "probeGBFS Get params g =
           \<lparr>reply = Replied (Status 400
              (''Could not unmarshal target JSON, target '' @ [CHR 0x27] @ target @ [CHR 0x27]
                 @ '' does not have the expected schema: '' @ Error err @ [CHR 0x0A])),
            fetched = [target], vars = g\<rparr> \<and>
         probeGBFS_part_001 Get params =
           (Replied (Status 400
              (''Could not unmarshal target JSON, target '' @ [CHR 0x27] @ target @ [CHR 0x27]
                 @ '' does not have the expected schema: '' @ Error err @ [CHR 0x0A])),
            [target])"
  using assms
  by (simp add: probeGBFS_def probeGBFS_part_001_def Values_Get_def http_Error_def
      split: option.split)

theorem probeGBFS_schema_error_witness:
  "GetStationStatuses (Document feed_bad_ttl) =
     Return (Some response_bad_ttl, Some (UnmarshalTypeError ''string'' T_int64)) \<and>
   probeGBFS (\<lambda>url. Body (Document feed_bad_ttl)) [''target'' \<mapsto> [''http://a'']] initial_vars =
     \<lparr>reply = Replied (Status 400
        (''Could not unmarshal target JSON, target '' @ [CHR 0x27] @ ''http://a'' @ [CHR 0x27]
           @ '' does not have the expected schema: ''
           @ ''json: cannot unmarshal string into Go value of type int64'' @ [CHR 0x0A])),
      fetched = [''http://a''], vars = initial_vars\<rparr>"
proof -
  have h1: "[''target'' \<mapsto> [''http://a'']] ''target'' = Some (''http://a'' # [])" by simp
  have h2: "''http://a'' \<noteq> []" by simp
  have h3: "(\<lambda>url. Body (Document feed_bad_ttl)) ''http://a'' = Body (Document feed_bad_ttl)"
    by simp
  show ?thesis
    using h1 h2 h3 GetStationStatuses_bad_ttl
      probeGBFS_schema_error [of "[''target'' \<mapsto> [''http://a'']]" "''http://a''" "[]"
        "\<lambda>url. Body (Document feed_bad_ttl)" "Document feed_bad_ttl" "Some response_bad_ttl"
        "UnmarshalTypeError ''string'' T_int64" initial_vars]
    by (simp add: Error_def type_String_def)
qed

subsection \<open>Requests against different targets\<close>

text \<open>
  Claim C2, on the handler of \<^verbatim>\<open>src/main.go\<close>: a request for the target \<^verbatim>\<open>http://a\<close>,
  whose feed holds station A1, followed by a request for the target \<^verbatim>\<open>http://b\<close>, whose
  feed holds station B1. The reply to the second request holds samples for A1.
\<close>

theorem probeGBFS_second_target:
  "probeGBFS two_feeds [''target'' \<mapsto> [''http://b'']]
     (vars (probeGBFS two_feeds [''target'' \<mapsto> [''http://a'']] initial_vars)) =
     \<lparr>reply = Replied (Metrics
        [(''gbfs_bikes_available'', ''A1'', 3), (''gbfs_bikes_available'', ''B1'', 5),
         (''gbfs_bikes_disabled'', ''A1'', 0), (''gbfs_bikes_disabled'', ''B1'', 0),
         (''gbfs_docks_available'', ''A1'', 0), (''gbfs_docks_available'', ''B1'', 0)]),
      fetched = [''http://b''],
      vars = \<lparr>bikesAvailable = [(''A1'', 3), (''B1'', 5)],
              bikesDisabled = [(''A1'', 0), (''B1'', 0)],
              docksAvailable = [(''A1'', 0), (''B1'', 0)]\<rparr>\<rparr>"
  by (simp add: two_feeds_def feed_A1_def feed_B1_def decoder_defs handler_defs)

text \<open>The handler of \<^verbatim>\<open>part_001\<close> makes its gauges for the request: the stations in its
  reply are those of the feed it fetched.\<close>

lemma station_ids_Gather:
  "station_ids (Gather reg) = (\<Union>nv \<in> set reg. fst ` set (snd nv))"
  by (auto simp add: station_ids_def Gather_def split_beta image_iff) force+

lemma keys_With_Set: "fst ` set (With_Set k v vec) = insert k (fst ` set vec)"
  by (simp add: With_Set_def dom_update)

lemma station_ids_observe_part_001:
  "station_ids (Gather (registry_part_001 (observe_part_001 s g))) =
     insert (ID s) (station_ids (Gather (registry_part_001 g)))"
  by (simp add: station_ids_Gather registry_part_001_def observe_part_001_def keys_With_Set)

lemma station_ids_fold_observe_part_001:
  "station_ids (Gather (registry_part_001 (fold observe_part_001 sts g))) =
     ID ` set sts \<union> station_ids (Gather (registry_part_001 g))"
  by (induction sts arbitrary: g) (simp_all add: station_ids_observe_part_001)

lemma probeGBFS_part_001_isolated:
  assumes "probeGBFS_part_001 Get params = (Replied (Metrics samples), urls)"
  shows "\<exists>body resp. Get (Values_Get params ''target'') = Body body \<and>
           GetStationStatuses body = Return (Some resp, None) \<and>
           station_ids samples = ID ` set (elems (Data_Stations resp))"
proof -
  from assms obtain body resp where
    1: "Get (Values_Get params ''target'') = Body body" and
    2: "GetStationStatuses body = Return (Some resp, None)" and
    3: "samples = Gather (registry_part_001
          (fold observe_part_001 (elems (Data_Stations resp)) new_gauges))"
    by (auto simp add: probeGBFS_part_001_def Let_def http_Error_def
        split: if_splits fetch.splits outcome.splits option.splits prod.splits)
  have "station_ids (Gather (registry_part_001 new_gauges)) = {}"
    by (simp add: station_ids_Gather registry_part_001_def new_gauges_def)
  with 1 2 3 show ?thesis
    by (simp add: station_ids_fold_observe_part_001)
qed

subsection \<open>One station, end to end\<close>

text \<open>The reply of the handler of \<^verbatim>\<open>part_001\<close> for any request whose target feed is the
  one station 7001.\<close>

lemma probeGBFS_part_001_one_station:
  assumes "params ''target'' = Some (target # vs)" and "target \<noteq> []"
    and "Get target = Body (Document feed_7001)"
  shows "probeGBFS_part_001 Get params =
     (Replied (Metrics
        [(''gbfs_bikes_available'', ''7001'', 4),
         (''gbfs_bikes_disabled'', ''7001'', 0),
         (''gbfs_docks_available'', ''7001'', 11),
         (''gbfs_docks_disabled'', ''7001'', 0),
         (''gbfs_installed'', ''7001'', 1),
         (''gbfs_renting'', ''7001'', 1),
         (''gbfs_last_reported_timestamp_seconds'', ''7001'', 1600000000)]),
      [target])"
proof -
  have d: "GetStationStatuses (Document feed_7001) = Return (Some response_7001, None)"
    by (simp add: feed_7001_def station_7001_def response_7001_def status_7001_def decoder_defs)
  show ?thesis
    using assms d
    by (simp add: probeGBFS_part_001_def Values_Get_def response_7001_def status_7001_def
        observe_part_001_def With_Set_def registry_part_001_def Gather_def BuildFQName_def
        namespace_def float64_def BoolToFloat64_def new_gauges_def)
qed

text \<open>
  Claim C4, on the handler of \<^verbatim>\<open>part_001\<close> with the feed of the claim. The feed decodes
  to one station with \<^verbatim>\<open>Returning\<close> false. The reply holds seven samples for station
  7001, among them \<^verbatim>\<open>gbfs_bikes_available\<close> with 4 and \<^verbatim>\<open>gbfs_renting\<close> with 1; no
  gauge is set from \<^verbatim>\<open>Returning\<close> and no sample has the value of \<^verbatim>\<open>is_returning\<close>. The
  gauge whose \<^verbatim>\<open>Help\<close> speaks of accepting bike returns is \<^verbatim>\<open>gbfs_renting\<close>, rendered
  with 1, and the one whose \<^verbatim>\<open>Help\<close> speaks of renting bikes is \<^verbatim>\<open>gbfs_installed\<close>.
\<close>

theorem probeGBFS_part_001_feed_7001:
  "GetStationStatuses (Document feed_7001) = Return (Some response_7001, None) \<and>
   map Returning (elems (Data_Stations response_7001)) = [False] \<and>
   probeGBFS_part_001 (\<lambda>url. Body (Document feed_7001)) [''target'' \<mapsto> [''http://feed'']] =
     (Replied (Metrics
        [(''gbfs_bikes_available'', ''7001'', 4),
         (''gbfs_bikes_disabled'', ''7001'', 0),
         (''gbfs_docks_available'', ''7001'', 11),
         (''gbfs_docks_disabled'', ''7001'', 0),
         (''gbfs_installed'', ''7001'', 1),
         (''gbfs_renting'', ''7001'', 1),
         (''gbfs_last_reported_timestamp_seconds'', ''7001'', 1600000000)]),
      [''http://feed'']) \<and>
   map fst (registry_part_001 new_gauges) = map fst Help_part_001 \<and>
   map_of Help_part_001 ''gbfs_renting'' =
     Some (''Indicates if the station is currently accepting bike returns, ''
             @ ''regardless of if any docks are available'') \<and>
   map_of Help_part_001 ''gbfs_installed'' =
     Some (''Indicates if the station is currently renting bikes, ''
             @ ''regardless of if any bikes are available'') \<and>
   map_of Help_part_001 ''gbfs_returning'' = None"
proof -
  have d: "GetStationStatuses (Document feed_7001) = Return (Some response_7001, None)"
    by (simp add: feed_7001_def station_7001_def response_7001_def status_7001_def decoder_defs)
  have r: "map Returning (elems (Data_Stations response_7001)) = [False]"
    by (simp add: response_7001_def status_7001_def)
  have p: "probeGBFS_part_001 (\<lambda>url. Body (Document feed_7001))
       [''target'' \<mapsto> [''http://feed'']] =
     (Replied (Metrics
        [(''gbfs_bikes_available'', ''7001'', 4),
         (''gbfs_bikes_disabled'', ''7001'', 0),
         (''gbfs_docks_available'', ''7001'', 11),
         (''gbfs_docks_disabled'', ''7001'', 0),
         (''gbfs_installed'', ''7001'', 1),
         (''gbfs_renting'', ''7001'', 1),
         (''gbfs_last_reported_timestamp_seconds'', ''7001'', 1600000000)]),
      [''http://feed''])"
    by (rule probeGBFS_part_001_one_station) simp_all
  have h: "map fst (registry_part_001 new_gauges) = map fst Help_part_001"
    by (simp add: registry_part_001_def Help_part_001_def)
  have h1: "map_of Help_part_001 ''gbfs_renting'' =
     Some (''Indicates if the station is currently accepting bike returns, ''
             @ ''regardless of if any docks are available'')"
    by (simp add: Help_part_001_def BuildFQName_def namespace_def)
  have h2: "map_of Help_part_001 ''gbfs_installed'' =
     Some (''Indicates if the station is currently renting bikes, ''
             @ ''regardless of if any bikes are available'')"
    by (simp add: Help_part_001_def BuildFQName_def namespace_def)
  have h3: "map_of Help_part_001 ''gbfs_returning'' = None"
    by (simp add: Help_part_001_def BuildFQName_def namespace_def)
  show ?thesis using d r p h h1 h2 h3 by blast
qed

subsection \<open>The pointer returned by \<^verbatim>\<open>GetStationStatuses\<close>\<close>

text \<open>
  Claim C10, at the body \<^verbatim>\<open>null\<close>: \<^verbatim>\<open>GetStationStatuses\<close> returns a nil pointer and a
  nil error; the poll loop and the handler of \<^verbatim>\<open>part_000\<close>, which drop the error, and
  the handler of \<^verbatim>\<open>src/main.go\<close>, which checks it, all dereference the pointer and panic.
\<close>

theorem GetStationStatuses_null:
  "GetStationStatuses (Document JNull) = Return (None, None) \<and>
   grabThoseMetrics [Body (Document JNull)] initial_vars =
     \<lparr>ending = Process_panic, sleeps = [], vars_at_end = initial_vars\<rparr> \<and>
   reply (probeGBFS_part_000 (\<lambda>url. Body (Document JNull)) initial_vars) = Crashed \<and>
   reply (probeGBFS (\<lambda>url. Body (Document JNull)) [''target'' \<mapsto> [''http://a'']]
            initial_vars) = Crashed"
  by (simp add: grabThoseMetrics_turn_def probeGBFS_part_000_def probeGBFS_def Values_Get_def)

text \<open>Every other body gives a pointer that is not nil, when the call returns; an entry
  \<^verbatim>\<open>null\<close> in the array of stations makes \<^verbatim>\<open>UnmarshalJSON\<close> panic.\<close>

lemma GetStationStatuses_pointer:
  assumes "GetStationStatuses body = Return (r, e)" and "body \<noteq> Document JNull"
  shows "r \<noteq> None"
proof (cases body)
  case (Malformed msg)
  with assms show ?thesis by auto
next
  case (Document j)
  with assms show ?thesis
    by (cases j) (auto split: decoded.splits)
qed

lemma GetStationStatuses_null_station:
  "GetStationStatuses (Document (JObj [(''data'', JObj [(''stations'', JArr [JNull])])])) = Panic"
  by (simp add: decoder_defs)

section \<open>Properties of the poll loop\<close>

lemma sint_succ: "sint (w :: int64) < 2 ^ 63 - 1 \<Longrightarrow> sint (w + 1) = sint w + 1"
proof -
  assume a: "sint w < 2 ^ 63 - 1"
  have lo: "- (2 ^ 63) \<le> sint w" using sint_ge [of w] by simp
  have "sint (w + 1) = signed_take_bit 63 (sint w + 1)"
    by (simp add: sint_word_ariths)
  also have "\<dots> = sint w + 1"
    by (rule signed_take_bit_int_eq_self) (use a lo in simp_all)
  finally show ?thesis .
qed

text \<open>
  Claim C5, as stated, at the largest TTL an int64 holds: the feed
  \<^verbatim>\<open>{"ttl":9223372036854775807}\<close> decodes without error, \<^verbatim>\<open>TTL+1\<close> wraps to the
  smallest int64, and the seconds computed are 10, where \<open>max 10 (ttl + 1)\<close> is
  \<open>2 ^ 63\<close>.
\<close>

theorem sleepLenSeconds_counterexample:
  "GetStationStatuses (Document (JObj [(''ttl'', JInt 9223372036854775807)])) =
     Return (Some (zero_StationStatusAPIResponse\<lparr>TTL := 9223372036854775807\<rparr>), None) \<and>
   sint (sleepLenSeconds (zero_StationStatusAPIResponse\<lparr>TTL := 9223372036854775807\<rparr>)) = 10 \<and>
   sint (sleepLenSeconds (zero_StationStatusAPIResponse\<lparr>TTL := 9223372036854775807\<rparr>)) \<noteq>
     max 10 (sint (TTL (zero_StationStatusAPIResponse\<lparr>TTL := 9223372036854775807\<rparr>)) + 1)"
  by (simp add: decoder_defs sleepLenSeconds_def Max_int64_def minimumPollSleepSeconds_def)

text \<open>
  Claim C5, amended. For every decoded feed whose TTL is below the largest int64, the
  seconds the loop computes are \<open>max 10 (ttl + 1)\<close>, and the turn of the loop sleeps
  that many seconds converted to a \<^verbatim>\<open>time.Duration\<close>; a TTL of 5 gives 10 and a TTL of 30
  gives 31.
\<close>

theorem sleepLenSeconds_pace:
  "(sint (TTL resp) < 2 ^ 63 - 1 \<longrightarrow>
      sint (sleepLenSeconds resp) = max 10 (sint (TTL resp) + 1)) \<and>
   (GetStationStatuses body = Return (Some resp, err) \<longrightarrow>
      (\<exists>g'. grabThoseMetrics_turn (Body body) g =
         Sleeps (Duration_of_seconds (sleepLenSeconds resp)) g')) \<and>
   sleepLenSeconds (resp\<lparr>TTL := 5\<rparr>) = 10 \<and>
   sleepLenSeconds (resp\<lparr>TTL := 30\<rparr>) = 31"
  by (simp add: sleepLenSeconds_def Max_int64_def minimumPollSleepSeconds_def sint_succ max_def
      grabThoseMetrics_turn_def)

theorem sleepLenSeconds_pace_witness:
  "sint (TTL (zero_StationStatusAPIResponse\<lparr>TTL := 30\<rparr>)) < 2 ^ 63 - 1 \<and>
   sint (sleepLenSeconds (zero_StationStatusAPIResponse\<lparr>TTL := 30\<rparr>)) = 31 \<and>
   GetStationStatuses (Document (JObj [(''ttl'', JInt 30)])) =
     Return (Some (zero_StationStatusAPIResponse\<lparr>TTL := 30\<rparr>), None) \<and>
   grabThoseMetrics_turn (Body (Document (JObj [(''ttl'', JInt 30)]))) initial_vars =
     Sleeps (Duration_of_seconds 31) initial_vars"
proof -
  have h1: "sint (TTL (zero_StationStatusAPIResponse\<lparr>TTL := 30\<rparr>)) < 2 ^ 63 - 1"
    by simp
  have h2: "GetStationStatuses (Document (JObj [(''ttl'', JInt 30)])) =
     Return (Some (zero_StationStatusAPIResponse\<lparr>TTL := 30\<rparr>), None)"
    by (simp add: decoder_defs)
  show ?thesis
    using h1 h2
      sleepLenSeconds_pace [of "zero_StationStatusAPIResponse\<lparr>TTL := 30\<rparr>"
        "Document (JObj [(''ttl'', JInt 30)])" None initial_vars]
    by (simp add: decoder_defs grabThoseMetrics_turn_def)
qed

text \<open>
  Claim C6, as stated, on two turns of the loop: the first feed fails to decode with a
  type error; the loop sets the gauges from what was decoded, sleeps 10 seconds, and
  goes on to the second feed.
\<close>

theorem grabThoseMetrics_counterexample:
  "GetStationStatuses (Document feed_bad_ttl) =
     Return (Some response_bad_ttl, Some (UnmarshalTypeError ''string'' T_int64)) \<and>
   grabThoseMetrics [Body (Document feed_bad_ttl), Body (Document feed_7001)] initial_vars =
     \<lparr>ending = Still_running, sleeps = [10000000000, 31000000000],
      vars_at_end = \<lparr>bikesAvailable = [(''7001'', 4)], bikesDisabled = [(''7001'', 0)],
                     docksAvailable = [(''7001'', 11)]\<rparr>\<rparr>"
  by (simp add: feed_bad_ttl_def response_bad_ttl_def feed_7001_def station_7001_def
      decoder_defs saveError_def grabThoseMetrics_turn_def handler_defs sleepLenSeconds_def
      Max_int64_def minimumPollSleepSeconds_def Duration_of_seconds_def)

text \<open>
  Claim C6, amended. In the poll loop a failure of the request and a failure to read
  the body end the process, at once and whatever the later answers would be. An error
  returned by \<^verbatim>\<open>GetStationStatuses\<close> together with a response does not: the turn sets
  the gauges from the response and sleeps.
\<close>

theorem grabThoseMetrics_fatal:
  "grabThoseMetrics (GetFailed err # answers) g =
     \<lparr>ending = Process_exit err, sleeps = [], vars_at_end = g\<rparr> \<and>
   grabThoseMetrics (ReadFailed err # answers) g =
     \<lparr>ending = Process_exit err, sleeps = [], vars_at_end = g\<rparr> \<and>
   (GetStationStatuses body = Return (Some resp, Some e) \<longrightarrow>
      grabThoseMetrics_turn (Body body) g =
        Sleeps (Duration_of_seconds (sleepLenSeconds resp))
               (fold observe (elems (Data_Stations resp)) g))"
  by (simp add: grabThoseMetrics_turn_def)

theorem grabThoseMetrics_fatal_witness:
  "GetStationStatuses (Document feed_bad_ttl) =
     Return (Some response_bad_ttl, Some (UnmarshalTypeError ''string'' T_int64)) \<and>
   grabThoseMetrics_turn (Body (Document feed_bad_ttl)) initial_vars =
     Sleeps 10000000000
       \<lparr>bikesAvailable = [(''7001'', 4)], bikesDisabled = [(''7001'', 0)],
        docksAvailable = [(''7001'', 0)]\<rparr> \<and>
   grabThoseMetrics [GetFailed (TransportError ''timeout''), Body (Document feed_7001)]
       initial_vars =
     \<lparr>ending = Process_exit (TransportError ''timeout''), sleeps = [],
      vars_at_end = initial_vars\<rparr>"
  using GetStationStatuses_bad_ttl
    grabThoseMetrics_fatal [of "TransportError ''timeout''" "[Body (Document feed_7001)]"
      initial_vars "Document feed_bad_ttl" response_bad_ttl
      "UnmarshalTypeError ''string'' T_int64"]
  by (simp add: response_bad_ttl_def handler_defs sleepLenSeconds_def Max_int64_def
      minimumPollSleepSeconds_def Duration_of_seconds_def zero_StationStatus_def)

text \<open>The duration handed to \<^verbatim>\<open>time.Sleep\<close> is the seconds computed times \<open>10 ^ 9\<close>
  as long as that fits an int64, that is for a TTL up to 9223372035.\<close>

lemma Duration_of_seconds_exact:
  assumes "sint (TTL resp) \<le> 9223372035"
  shows "sint (Duration_of_seconds (sleepLenSeconds resp)) =
           max 10 (sint (TTL resp) + 1) * 1000000000"
proof -
  have lt: "sint (TTL resp) < 2 ^ 63 - 1" using assms by simp
  have s: "sint (sleepLenSeconds resp) = max 10 (sint (TTL resp) + 1)"
    by (simp add: sleepLenSeconds_def Max_int64_def minimumPollSleepSeconds_def
        sint_succ [OF lt] max_def)
  define m where "m = max 10 (sint (TTL resp) + 1)"
  have lo: "10 \<le> m" and hi: "m \<le> 9223372036"
    using assms by (simp_all add: m_def)
  have "- 9223372036854775808 \<le> m * 1000000000" using lo by linarith
  then have b1: "- (2 ^ 63) \<le> m * 1000000000" by simp
  have "m * 1000000000 < 9223372036854775808" using hi by linarith
  then have b2: "m * 1000000000 < 2 ^ 63" by simp
  have "sint (Duration_of_seconds (sleepLenSeconds resp)) =
      signed_take_bit 63 (sint (sleepLenSeconds resp) * 1000000000)"
    by (simp add: Duration_of_seconds_def sint_word_ariths)
  also have "\<dots> = signed_take_bit 63 (m * 1000000000)"
    using s by (simp add: m_def)
  also have "\<dots> = m * 1000000000"
    using b1 b2 by (rule signed_take_bit_int_eq_self)
  finally show ?thesis by (simp add: m_def)
qed

end
